theory Spec2Isabelle
  imports Main
begin

section \<open>Paths: the part of Node's POSIX \<open>path\<close> module that the resolver calls\<close>

text \<open>
  The resolver imports \<open>join\<close> from Node's \<open>path\<close> module. The functions below follow the
  POSIX implementation of that module: \<open>join\<close> drops empty arguments, glues the rest with
  \<open>/\<close> and normalises the result; normalising splits at \<open>/\<close>, drops empty and \<open>.\<close>
  segments, lets \<open>..\<close> remove the segment before it (or keeps it, for a relative path that
  climbs above its start), and keeps a leading and a trailing \<open>/\<close>.
\<close>

definition sep :: char where
  "sep = CHR ''/''"

fun splitSep :: "string \<Rightarrow> string list" where
  "splitSep [] = [[]]"
| "splitSep (c # cs) =
     (if c = sep then [] # splitSep cs
      else (case splitSep cs of
              [] \<Rightarrow> [[c]]
            | seg # segs \<Rightarrow> (c # seg) # segs))"

fun joinSep :: "string list \<Rightarrow> string" where
  "joinSep [] = []"
| "joinSep [s] = s"
| "joinSep (s # t # ss) = s @ sep # joinSep (t # ss)"

text \<open>
  \<open>normalizeSegments allowAboveRoot res segs\<close>: \<open>res\<close> is the stack of segments kept so
  far, the last one first.
\<close>

fun normalizeSegments :: "bool \<Rightarrow> string list \<Rightarrow> string list \<Rightarrow> string list" where
  "normalizeSegments allowAboveRoot res [] = rev res"
| "normalizeSegments allowAboveRoot res (seg # segs) =
     (if seg = [] \<or> seg = ''.'' then normalizeSegments allowAboveRoot res segs
      else if seg = ''..'' then
        (case res of
           [] \<Rightarrow> normalizeSegments allowAboveRoot (if allowAboveRoot then [''..''] else []) segs
         | lastSeg # res' \<Rightarrow>
             if lastSeg \<noteq> ''..'' then normalizeSegments allowAboveRoot res' segs
             else normalizeSegments allowAboveRoot
                    (if allowAboveRoot then ''..'' # res else res) segs)
      else normalizeSegments allowAboveRoot (seg # res) segs)"

definition normalizeString :: "string \<Rightarrow> bool \<Rightarrow> string" where
  "normalizeString path allowAboveRoot =
     joinSep (normalizeSegments allowAboveRoot [] (splitSep path))"

definition isAbsolute :: "string \<Rightarrow> bool" where
  "isAbsolute path = (path \<noteq> [] \<and> hd path = sep)"

definition normalizePath :: "string \<Rightarrow> string" where
  "normalizePath path =
     (if path = [] then ''.''
      else
        let isAbs = isAbsolute path;
            trailingSeparator = (last path = sep);
            p = normalizeString path (\<not> isAbs)
        in if p = [] then (if isAbs then ''/'' else if trailingSeparator then ''./'' else ''.'')
           else (if isAbs then ''/'' else []) @ p @ (if trailingSeparator then ''/'' else []))"

definition join :: "string list \<Rightarrow> string" where
  "join args =
     (case filter (\<lambda>arg. arg \<noteq> []) args of
        [] \<Rightarrow> ''.''
      | joined \<Rightarrow> normalizePath (joinSep joined))"

section \<open>The filesystem seen by the process\<close>

text \<open>
  \<open>existsSync\<close> of Node's \<open>fs\<close> module answers for the running process: a relative path is
  looked up from the process's working directory. \<open>files\<close> is the set of absolute path
  strings at which the operating system finds an entry.
\<close>

record env =
  cwd :: string
  files :: "string set"

definition existsSync :: "env \<Rightarrow> string \<Rightarrow> bool" where
  "existsSync e path =
     ((if isAbsolute path then path else join [cwd e, path]) \<in> files e)"

section \<open>Configuration records\<close>

text \<open>
  Modelled from the spec: the types \<open>InputConfig\<close>, \<open>InputOutputFilesConfig\<close> and
  \<open>Config\<close> of \<open>types.ts\<close>, which is not among the sources. Every field of the input is
  optional; the fields of the input and of the resolved records carry the prefixes \<open>in_\<close>
  and \<open>cfg_\<close>, since a field and the function that resolves it share a name in the source.
  \<open>Error\<close> is the one kind of error that resolution throws.
\<close>

datatype error = Error string

record inputOutputFilesConfig =
  in_typegenPath :: "string option"
  in_schemaPath :: "string option"
  in_buildPath :: "string option"

record 'p inputConfig =
  in_contextPath :: "string option"
  in_resolversPath :: "string option"
  in_ejectFilePath :: "string option"
  in_output :: "inputOutputFilesConfig option"
  in_prisma :: "'p option"

record outputFiles =
  typegenPath :: string
  schemaPath :: string
  buildPath :: string

record 'r config =
  cfg_contextPath :: "string option"
  cfg_resolversPath :: string
  cfg_ejectFilePath :: "string option"
  cfg_output :: outputFiles
  cfg_prisma :: "'r option"

definition DEFAULT_contextPath :: string where
  "DEFAULT_contextPath = ''./src/context.ts''"

definition DEFAULT_resolversPath :: string where
  "DEFAULT_resolversPath = ''./src/graphql/''"

definition DEFAULT_ejectFilePath :: string where
  "DEFAULT_ejectFilePath = ''./src/index.ts''"

definition DEFAULT_typegenPath :: string where
  "DEFAULT_typegenPath = ''./yoga/nexus.ts''"

definition DEFAULT_schemaPath :: string where
  "DEFAULT_schemaPath = ''./src/schema.graphql''"

definition DEFAULT_buildPath :: string where
  "DEFAULT_buildPath = ''./dist''"

section \<open>Defaulting helpers and existence validators\<close>

text \<open>
  \<open>input ? input : defaultValue\<close> on a \<open>string | undefined\<close>: \<open>undefined\<close> and the empty
  string are the two falsy values of that type.
\<close>

definition truthy :: "string option \<Rightarrow> bool" where
  "truthy input = (case input of None \<Rightarrow> False | Some s \<Rightarrow> s \<noteq> [])"

definition inputOrDefaultValue :: "string option \<Rightarrow> string \<Rightarrow> string" where
  "inputOrDefaultValue input defaultValue =
     (if truthy input then the input else defaultValue)"

definition inputOrDefaultPath :: "string \<Rightarrow> string option \<Rightarrow> string \<Rightarrow> string" where
  "inputOrDefaultPath projectDir input defaultValue =
     (let path = inputOrDefaultValue input defaultValue in join [projectDir, path])"

definition optional :: "env \<Rightarrow> string \<Rightarrow> string option \<Rightarrow> string \<Rightarrow> error + string option" where
  "optional e path input errorMessage =
     (if \<not> existsSync e path then
        (if truthy input then Inl (Error errorMessage) else Inr None)
      else Inr (Some path))"

definition requiredPath :: "env \<Rightarrow> string \<Rightarrow> string \<Rightarrow> error + string" where
  "requiredPath e path errorMessage =
     (if \<not> existsSync e path then Inl (Error errorMessage) else Inr path)"

section \<open>Field resolvers\<close>

text \<open>
  The resolvers keep their names, but for \<open>output\<close>, written \<open>output_paths\<close>.
\<close>

definition contextPath :: "env \<Rightarrow> string \<Rightarrow> string option \<Rightarrow> error + string option" where
  "contextPath e projectDir input =
     (let path = inputOrDefaultPath projectDir input DEFAULT_contextPath
      in optional e path input (''Could not find a valid `contextPath` at '' @ path))"

definition resolversPath :: "env \<Rightarrow> string \<Rightarrow> string option \<Rightarrow> error + string" where
  "resolversPath e projectDir input =
     (let path = inputOrDefaultPath projectDir input DEFAULT_resolversPath
      in requiredPath e path (''Could not find a valid `resolversPath` at '' @ path))"

definition ejectFilePath :: "env \<Rightarrow> string \<Rightarrow> string option \<Rightarrow> error + string option" where
  "ejectFilePath e projectDir input =
     (let path = inputOrDefaultPath projectDir input DEFAULT_ejectFilePath
      in optional e path input (''Could not find a valid `ejectFilePath` at '' @ path))"

definition emptyOutput :: inputOutputFilesConfig where
  "emptyOutput = \<lparr>in_typegenPath = None, in_schemaPath = None, in_buildPath = None\<rparr>"

definition output_paths :: "string \<Rightarrow> inputOutputFilesConfig option \<Rightarrow> string option \<Rightarrow> outputFiles" where
  "output_paths projectDir input outDir =
     (let input' = (case input of None \<Rightarrow> emptyOutput | Some i \<Rightarrow> i);
          typegenPath' = inputOrDefaultPath projectDir (in_typegenPath input') DEFAULT_typegenPath;
          schemaPath' = inputOrDefaultPath projectDir (in_schemaPath input') DEFAULT_schemaPath;
          buildPath' = inputOrDefaultValue outDir (join [projectDir, DEFAULT_buildPath])
      in \<lparr>typegenPath = typegenPath', schemaPath = schemaPath', buildPath = buildPath'\<rparr>)"

section \<open>The presence probe (config.ts)\<close>

definition findPrismaConfigFile :: "env \<Rightarrow> string \<Rightarrow> string option" where
  "findPrismaConfigFile e projectDir =
     (let definitionPath = join [projectDir, ''prisma.yml'']
      in if existsSync e definitionPath then Some definitionPath
         else
           let definitionPath' = join [cwd e, ''prisma'', ''prisma.yml'']
           in if existsSync e definitionPath' then Some definitionPath' else None)"

section \<open>The database subsystem, variant with a client and a datamodel-info file\<close>

text \<open>
  The repository holds two variants of \<open>prisma\<close> and \<open>normalizeConfig\<close>; their helpers,
  field resolvers and \<open>output\<close> are the same. The variant of this section is the one that
  \<open>config.ts\<close> is written against (it exports \<open>DEFAULT_META_SCHEMA_PATH\<close>); its functions
  carry the suffix \<open>_datamodel\<close>, those of \<open>yogaDefaults.ts\<close> the suffix \<open>_schema\<close>.

  Modelled from the spec: the type \<open>InputPrismaConfig\<close> of \<open>types.ts\<close>, which is not among
  the sources. It is \<open>true\<close> or an override object; the object has the fields that
  \<open>prisma\<close> reads, a path to the datamodel-info file and an inline client. \<open>'v\<close> is the
  type of loaded and inline objects.

  The module loader \<open>transpileAndImport\<close> of \<open>helpers\<close> is a parameter: given the
  \<open>(filePath, exportName)\<close> requests, the project directory and the output directory it
  returns the list of loaded exports, or fails.
\<close>

definition DEFAULT_META_SCHEMA_PATH :: string where
  "DEFAULT_META_SCHEMA_PATH = ''./yoga/nexus-prisma/datamodel-info.ts''"

definition DEFAULT_PRISMA_CLIENT_PATH :: string where
  "DEFAULT_PRISMA_CLIENT_PATH = ''./yoga/prisma-client/index.ts''"

record 'v inputPrismaObject =
  in_datamodelInfoPath :: "string option"
  in_client :: "'v option"

datatype 'v inputPrismaConfig = PrismaTrue | PrismaObject "'v inputPrismaObject"

record 'v prismaConfig =
  datamodelInfo :: "'v option"
  client :: "'v option"

type_synonym 'v loader = "(string \<times> string) list \<Rightarrow> string \<Rightarrow> string \<Rightarrow> error + 'v list"

text \<open>
  A property read on \<open>true\<close> or on \<open>{}\<close> is \<open>undefined\<close>: \<open>objectOf\<close> gives the fields
  that \<open>input!.datamodelInfoPath\<close> and \<open>input!.client\<close> read.
\<close>

definition emptyPrismaObject :: "'v inputPrismaObject" where
  "emptyPrismaObject = \<lparr>in_datamodelInfoPath = None, in_client = None\<rparr>"

fun objectOf :: "'v inputPrismaConfig \<Rightarrow> 'v inputPrismaObject" where
  "objectOf PrismaTrue = emptyPrismaObject"
| "objectOf (PrismaObject obj) = obj"

text \<open>Array destructuring: a position past the end of the array reads \<open>undefined\<close>.\<close>

definition element :: "'a list \<Rightarrow> nat \<Rightarrow> 'a option" where
  "element xs i = (if i < length xs then Some (xs ! i) else None)"

definition importDatamodelInfoAndClient ::
  "env \<Rightarrow> 'v loader \<Rightarrow> string \<Rightarrow> string \<Rightarrow> 'v option \<Rightarrow> string option \<Rightarrow> error + 'v list" where
  "importDatamodelInfoAndClient e transpileAndImport projectDir outDir clientInput datamodelInfoInput =
     (case (case clientInput of
              None \<Rightarrow>
                (case requiredPath e DEFAULT_PRISMA_CLIENT_PATH [] of
                   Inl err \<Rightarrow> Inl err
                 | Inr filePath \<Rightarrow> Inr ([(filePath, ''prisma'')], []))
            | Some c \<Rightarrow> Inr ([], [c])) of
        Inl err \<Rightarrow> Inl err
      | Inr (filesToTranspile, out) \<Rightarrow>
          let datamodelInfoPath =
                inputOrDefaultPath projectDir datamodelInfoInput DEFAULT_META_SCHEMA_PATH
          in (case requiredPath e datamodelInfoPath
                     (''Could not find a valid `prisma.datamodelInfo` at '' @ datamodelInfoPath) of
                Inl err \<Rightarrow> Inl err
              | Inr filePath \<Rightarrow>
                  (case transpileAndImport (filesToTranspile @ [(filePath, ''default'')])
                          projectDir outDir of
                     Inl err \<Rightarrow> Inl err
                   | Inr importedFiles \<Rightarrow> Inr (out @ importedFiles))))"

definition prisma_datamodel ::
  "env \<Rightarrow> 'v loader \<Rightarrow> string \<Rightarrow> 'v inputPrismaConfig option \<Rightarrow> string
     \<Rightarrow> error + 'v prismaConfig option" where
  "prisma_datamodel e transpileAndImport projectDir input outDir =
     (let hasPrisma = (findPrismaConfigFile e projectDir \<noteq> None)
      in if input = None \<and> \<not> hasPrisma then Inr None
         else
           let input' = (if input = Some PrismaTrue \<or> (input = None \<and> hasPrisma)
                         then Some (PrismaObject emptyPrismaObject) else input);
               obj = objectOf (the input')
           in (case importDatamodelInfoAndClient e transpileAndImport projectDir outDir
                       (in_client obj) (in_datamodelInfoPath obj) of
                 Inl err \<Rightarrow> Inl err
               | Inr loaded \<Rightarrow>
                   Inr (Some \<lparr>datamodelInfo = element loaded 1, client = element loaded 0\<rparr>)))"

definition normalizeConfig_datamodel ::
  "env \<Rightarrow> 'v loader \<Rightarrow> 'v inputPrismaConfig inputConfig \<Rightarrow> string \<Rightarrow> string option
     \<Rightarrow> error + 'v prismaConfig config" where
  "normalizeConfig_datamodel e transpileAndImport cfg projectDir outDir =
     (let outputProperty = output_paths projectDir (in_output cfg) outDir
      in case contextPath e projectDir (in_contextPath cfg) of
           Inl err \<Rightarrow> Inl err
         | Inr contextPath' \<Rightarrow>
        (case resolversPath e projectDir (in_resolversPath cfg) of
           Inl err \<Rightarrow> Inl err
         | Inr resolversPath' \<Rightarrow>
        (case ejectFilePath e projectDir (in_ejectFilePath cfg) of
           Inl err \<Rightarrow> Inl err
         | Inr ejectFilePath' \<Rightarrow>
        (case prisma_datamodel e transpileAndImport projectDir (in_prisma cfg)
                (buildPath outputProperty) of
           Inl err \<Rightarrow> Inl err
         | Inr prisma' \<Rightarrow>
             Inr \<lparr>cfg_contextPath = contextPath', cfg_resolversPath = resolversPath',
                  cfg_ejectFilePath = ejectFilePath', cfg_output = outputProperty,
                  cfg_prisma = prisma'\<rparr>))))"

section \<open>The database subsystem, variant with a client path and an inline schema (yogaDefaults.ts)\<close>

text \<open>
  Modelled from the spec: the type \<open>InputPrismaConfig\<close> of this variant. The override
  object may carry the client path, an inline \<open>nexusPrismaSchema\<close> object and the name under
  which the client is exposed. The inline schema is an object, so it is truthy and its
  \<open>typeof\<close> is not \<open>'string'\<close>; a schema found on disk is a path, which
  \<open>transpileAndImportDefault\<close> (a parameter: project directory and path to the loaded
  default export, or a failure) loads.
\<close>

definition DEFAULT_NEXUS_PRISMA_SCHEMA_PATH :: string where
  "DEFAULT_NEXUS_PRISMA_SCHEMA_PATH = ''./yoga/nexus-prisma/nexus-prisma.ts''"

definition DEFAULT_prismaClientPath :: string where
  "DEFAULT_prismaClientPath = ''./yoga/prisma-client/index.ts''"

definition DEFAULT_contextClientName :: string where
  "DEFAULT_contextClientName = ''prisma''"

record 'v inputSchemaObject =
  in_prismaClientPath :: "string option"
  in_nexusPrismaSchema :: "'v option"
  in_contextClientName :: "string option"

datatype 'v inputSchemaConfig = SchemaTrue | SchemaObject "'v inputSchemaObject"

record 'v schemaConfig =
  prismaClientPath :: string
  nexusPrismaSchema :: 'v
  contextClientName :: string

type_synonym 'v defaultLoader = "string \<Rightarrow> string \<Rightarrow> error + 'v"

definition emptySchemaObject :: "'v inputSchemaObject" where
  "emptySchemaObject =
     \<lparr>in_prismaClientPath = None, in_nexusPrismaSchema = None, in_contextClientName = None\<rparr>"

fun schemaObjectOf :: "'v inputSchemaConfig \<Rightarrow> 'v inputSchemaObject" where
  "schemaObjectOf SchemaTrue = emptySchemaObject"
| "schemaObjectOf (SchemaObject obj) = obj"

definition prisma_schema ::
  "env \<Rightarrow> 'v defaultLoader \<Rightarrow> string \<Rightarrow> 'v inputSchemaConfig option
     \<Rightarrow> error + 'v schemaConfig option" where
  "prisma_schema e transpileAndImportDefault projectDir input =
     (let hasPrisma = (findPrismaConfigFile e projectDir \<noteq> None)
      in if input = None \<and> \<not> hasPrisma then Inr None
         else
           let input' = (if input = Some SchemaTrue \<or> (input = None \<and> hasPrisma)
                         then Some (SchemaObject emptySchemaObject) else input);
               obj = schemaObjectOf (the input');
               prismaClientPath' =
                 inputOrDefaultPath projectDir (in_prismaClientPath obj) DEFAULT_prismaClientPath
           in (case (case in_nexusPrismaSchema obj of
                       Some inline \<Rightarrow> Inr inline
                     | None \<Rightarrow>
                         (case requiredPath e DEFAULT_NEXUS_PRISMA_SCHEMA_PATH
                                 (''Could not find a valid `prisma.nexusPrismaSchema` at ''
                                    @ DEFAULT_NEXUS_PRISMA_SCHEMA_PATH) of
                            Inl err \<Rightarrow> Inl err
                          | Inr nexusPrismaSchemaInput \<Rightarrow>
                              transpileAndImportDefault projectDir nexusPrismaSchemaInput)) of
                 Inl err \<Rightarrow> Inl err
               | Inr nexusPrismaSchema' \<Rightarrow>
                   let contextClientName' =
                         inputOrDefaultValue (in_contextClientName obj) DEFAULT_contextClientName
                   in (case requiredPath e prismaClientPath'
                              (''Could not find a valid `prisma.prismaClientPath` at ''
                                 @ prismaClientPath') of
                         Inl err \<Rightarrow> Inl err
                       | Inr checked \<Rightarrow>
                           Inr (Some \<lparr>prismaClientPath = checked,
                                      nexusPrismaSchema = nexusPrismaSchema',
                                      contextClientName = contextClientName'\<rparr>))))"

definition normalizeConfig_schema ::
  "env \<Rightarrow> 'v defaultLoader \<Rightarrow> 'v inputSchemaConfig inputConfig \<Rightarrow> string \<Rightarrow> string option
     \<Rightarrow> error + 'v schemaConfig config" where
  "normalizeConfig_schema e transpileAndImportDefault cfg projectDir outDir =
     (case contextPath e projectDir (in_contextPath cfg) of
        Inl err \<Rightarrow> Inl err
      | Inr contextPath' \<Rightarrow>
     (case resolversPath e projectDir (in_resolversPath cfg) of
        Inl err \<Rightarrow> Inl err
      | Inr resolversPath' \<Rightarrow>
     (case ejectFilePath e projectDir (in_ejectFilePath cfg) of
        Inl err \<Rightarrow> Inl err
      | Inr ejectFilePath' \<Rightarrow>
     (case prisma_schema e transpileAndImportDefault projectDir (in_prisma cfg) of
        Inl err \<Rightarrow> Inl err
      | Inr prisma' \<Rightarrow>
          Inr \<lparr>cfg_contextPath = contextPath', cfg_resolversPath = resolversPath',
               cfg_ejectFilePath = ejectFilePath',
               cfg_output = output_paths projectDir (in_output cfg) outDir,
               cfg_prisma = prisma'\<rparr>))))"

section \<open>Inputs and predicates used in the statements\<close>

text \<open>The empty raw configuration \<open>{}\<close>, which \<open>importYogaConfig\<close> passes when no
  \<open>yoga.config.ts\<close> is found.\<close>

definition emptyConfig :: "'p inputConfig" where
  "emptyConfig = \<lparr>in_contextPath = None, in_resolversPath = None, in_ejectFilePath = None,
                   in_output = None, in_prisma = None\<rparr>"

text \<open>A segment that normalisation keeps as it is: a name, neither empty nor \<open>.\<close> nor \<open>..\<close>.\<close>

definition plainSegment :: "string \<Rightarrow> bool" where
  "plainSegment seg = (seg \<noteq> [] \<and> seg \<noteq> ''.'' \<and> seg \<noteq> ''..'' \<and> sep \<notin> set seg)"

text \<open>
  The raw form of a resolved configuration, in the words of the specification: each resolved
  absolute path, minus the project root, becomes the raw value. The input of the database
  subsystem is not a path of the resolved configuration and is carried over as it was given.
\<close>

definition withoutRoot :: "string \<Rightarrow> string \<Rightarrow> string" where
  "withoutRoot projectDir path = drop (length projectDir) path"

definition rawOf :: "string \<Rightarrow> 'p option \<Rightarrow> 'r config \<Rightarrow> 'p inputConfig" where
  "rawOf projectDir prismaInput resolved =
     \<lparr>in_contextPath = map_option (withoutRoot projectDir) (cfg_contextPath resolved),
      in_resolversPath = Some (withoutRoot projectDir (cfg_resolversPath resolved)),
      in_ejectFilePath = map_option (withoutRoot projectDir) (cfg_ejectFilePath resolved),
      in_output =
        Some \<lparr>in_typegenPath = Some (withoutRoot projectDir (typegenPath (cfg_output resolved))),
              in_schemaPath = Some (withoutRoot projectDir (schemaPath (cfg_output resolved))),
              in_buildPath = Some (withoutRoot projectDir (buildPath (cfg_output resolved)))\<rparr>,
      in_prisma = prismaInput\<rparr>"

text \<open>
  \<open>underRoot projectDir path\<close>: the path is the project root followed by a non-empty
  remainder that starts a new segment, so that the path lies strictly below the root.
\<close>

definition underRoot :: "string \<Rightarrow> string \<Rightarrow> bool" where
  "underRoot projectDir path =
     (length projectDir < length path \<and> take (length projectDir) path = projectDir
      \<and> (path ! length projectDir = sep \<or> last projectDir = sep))"

text \<open>
  \<open>rootJoined projectDir input defaultValue path\<close>: the path is absolute and is the join of
  the project root with the value that \<open>inputOrDefaultValue\<close> selects, which is the user's
  value when there is one and the default otherwise.
\<close>

definition rootJoined :: "string \<Rightarrow> string option \<Rightarrow> string \<Rightarrow> string \<Rightarrow> bool" where
  "rootJoined projectDir input defaultValue path =
     (isAbsolute path \<and> path = join [projectDir, inputOrDefaultValue input defaultValue])"

text \<open>
  An example project at \<open>/proj\<close>, used to instantiate the theorems below: every default file
  is on disk, the process runs in the project root, the build output comes from
  \<open>tsconfig.json\<close>, the user asks for the database subsystem with all defaults and sets a
  build path of their own. The example loaders return the path they were asked to load.
\<close>

definition exampleEnv :: env where
  "exampleEnv =
     \<lparr>cwd = ''/proj'',
      files = {''/proj/src/graphql/'', ''/proj/src/context.ts'', ''/proj/src/index.ts'',
               ''/proj/yoga/prisma-client/index.ts'',
               ''/proj/yoga/nexus-prisma/datamodel-info.ts'',
               ''/proj/yoga/nexus-prisma/nexus-prisma.ts''}\<rparr>"

definition exampleOutput :: inputOutputFilesConfig where
  "exampleOutput =
     \<lparr>in_typegenPath = None, in_schemaPath = None, in_buildPath = Some ''./build''\<rparr>"

definition exampleConfig :: "string inputPrismaConfig inputConfig" where
  "exampleConfig =
     \<lparr>in_contextPath = None, in_resolversPath = None, in_ejectFilePath = None,
      in_output = Some exampleOutput, in_prisma = Some PrismaTrue\<rparr>"

definition exampleSchemaConfig :: "string inputSchemaConfig inputConfig" where
  "exampleSchemaConfig =
     \<lparr>in_contextPath = None, in_resolversPath = None, in_ejectFilePath = None,
      in_output = Some exampleOutput, in_prisma = Some SchemaTrue\<rparr>"

definition exampleLoader :: "string loader" where
  "exampleLoader requests projectDir outDir = Inr (map fst requests)"

definition exampleDefaultLoader :: "string defaultLoader" where
  "exampleDefaultLoader projectDir path = Inr path"

definition exampleResolved :: "string prismaConfig config" where
  "exampleResolved =
     \<lparr>cfg_contextPath = Some ''/proj/src/context.ts'',
      cfg_resolversPath = ''/proj/src/graphql/'',
      cfg_ejectFilePath = Some ''/proj/src/index.ts'',
      cfg_output = \<lparr>typegenPath = ''/proj/yoga/nexus.ts'',
                     schemaPath = ''/proj/src/schema.graphql'',
                     buildPath = ''/out/build''\<rparr>,
      cfg_prisma = Some \<lparr>datamodelInfo = Some ''/proj/yoga/nexus-prisma/datamodel-info.ts'',
                          client = Some ''./yoga/prisma-client/index.ts''\<rparr>\<rparr>"

definition exampleSchemaResolved :: "string schemaConfig config" where
  "exampleSchemaResolved =
     \<lparr>cfg_contextPath = Some ''/proj/src/context.ts'',
      cfg_resolversPath = ''/proj/src/graphql/'',
      cfg_ejectFilePath = Some ''/proj/src/index.ts'',
      cfg_output = \<lparr>typegenPath = ''/proj/yoga/nexus.ts'',
                     schemaPath = ''/proj/src/schema.graphql'',
                     buildPath = ''/out/build''\<rparr>,
      cfg_prisma = Some \<lparr>prismaClientPath = ''/proj/yoga/prisma-client/index.ts'',
                          nexusPrismaSchema = ''./yoga/nexus-prisma/nexus-prisma.ts'',
                          contextClientName = ''prisma''\<rparr>\<rparr>"

section \<open>Properties of the path functions\<close>

lemma splitSep_not_Nil [simp]: "splitSep s \<noteq> []"
  by (induction s) (auto split: list.splits)

lemma splitSep_append: "splitSep (x @ sep # y) = splitSep x @ splitSep y"
  by (induction x) (auto split: list.splits)

lemma splitSep_no_sep: "sep \<notin> set x \<Longrightarrow> splitSep x = [x]"
  by (induction x) auto

lemma splitSep_segments: "seg \<in> set (splitSep s) \<Longrightarrow> sep \<notin> set seg"
proof (induction s arbitrary: seg)
  case Nil
  then show ?case by simp
next
  case (Cons c cs)
  show ?case
  proof (cases "c = sep")
    case True
    with Cons show ?thesis by auto
  next
    case False
    obtain h t where ht: "splitSep cs = h # t"
      by (cases "splitSep cs") auto
    with Cons False show ?thesis by auto
  qed
qed

lemma splitSep_joinSep:
  "segs \<noteq> [] \<Longrightarrow> \<forall>seg \<in> set segs. sep \<notin> set seg \<Longrightarrow> splitSep (joinSep segs) = segs"
proof (induction segs rule: joinSep.induct)
  case 1
  then show ?case by simp
next
  case (2 s)
  then show ?case by (simp add: splitSep_no_sep)
next
  case (3 s t ss)
  have "splitSep (joinSep (s # t # ss)) = splitSep s @ splitSep (joinSep (t # ss))"
    by (simp add: splitSep_append)
  with 3 show ?case by (simp add: splitSep_no_sep)
qed

lemma normalizeSegments_skip_empty:
  "normalizeSegments a res (xs @ [] # ys) = normalizeSegments a res (xs @ ys)"
  by (induction xs arbitrary: res) (auto split: list.splits)

lemma normalizeSegments_plain_res:
  "\<not> a \<Longrightarrow> \<forall>seg \<in> set res. plainSegment seg \<Longrightarrow> \<forall>seg \<in> set segs. sep \<notin> set seg
     \<Longrightarrow> \<forall>seg \<in> set (normalizeSegments a res segs). plainSegment seg"
proof (induction segs arbitrary: res)
  case Nil
  then show ?case by simp
next
  case (Cons seg segs)
  show ?case
  proof (cases "seg = [] \<or> seg = ''.''")
    case True
    with Cons show ?thesis by auto
  next
    case False
    note nontrivial = this
    show ?thesis
    proof (cases "seg = ''..''")
      case True
      show ?thesis
      proof (cases res)
        case Nil
        with True Cons.prems Cons.IH [of "[]"] show ?thesis by simp
      next
        case (Cons l res')
        with True Cons.prems Cons.IH [of res'] Cons.IH [of res] show ?thesis
          by (auto simp: plainSegment_def)
      qed
    next
      case False
      with nontrivial Cons.prems have "\<forall>s \<in> set (seg # res). plainSegment s"
        by (auto simp: plainSegment_def)
      with Cons.IH [of "seg # res"] Cons.prems nontrivial False show ?thesis by auto
    qed
  qed
qed

lemma normalizeSegments_plain_id:
  "\<forall>seg \<in> set segs. plainSegment seg \<Longrightarrow> normalizeSegments a res segs = rev res @ segs"
  by (induction segs arbitrary: res) (auto simp: plainSegment_def)

lemma joinSep_Nil_iff: "\<forall>seg \<in> set segs. seg \<noteq> [] \<Longrightarrow> (joinSep segs = []) = (segs = [])"
  by (induction segs rule: joinSep.induct) auto

lemma last_joinSep:
  "segs \<noteq> [] \<Longrightarrow> \<forall>seg \<in> set segs. seg \<noteq> [] \<Longrightarrow> last (joinSep segs) = last (last segs)"
proof (induction segs rule: joinSep.induct)
  case (3 s t ss)
  then have "joinSep (t # ss) \<noteq> []"
    using joinSep_Nil_iff [of "t # ss"] by simp
  with 3 show ?case by simp
qed simp_all


lemma join_root:
  "root \<noteq> [] \<Longrightarrow>
     join [root, x] = normalizePath (if x = [] then root else root @ sep # x)"
  by (simp add: join_def)

lemma normalizePath_absolute:
  assumes "isAbsolute s"
  shows "normalizePath s =
     (if normalizeSegments False [] (splitSep s) = [] then [sep]
      else sep # joinSep (normalizeSegments False [] (splitSep s))
             @ (if last s = sep then [sep] else []))"
proof -
  let ?segs = "normalizeSegments False [] (splitSep s)"
  have "\<forall>seg \<in> set ?segs. plainSegment seg"
    by (rule normalizeSegments_plain_res) (auto dest: splitSep_segments)
  then have "\<forall>seg \<in> set ?segs. seg \<noteq> []"
    by (simp add: plainSegment_def)
  then have "(joinSep ?segs = []) = (?segs = [])"
    by (rule joinSep_Nil_iff)
  with assms show ?thesis
    by (simp add: normalizePath_def normalizeString_def isAbsolute_def Let_def sep_def)
qed

lemma isAbsolute_normalizePath: "isAbsolute s \<Longrightarrow> isAbsolute (normalizePath s)"
  by (simp add: normalizePath_absolute) (simp add: isAbsolute_def)

lemma isAbsolute_join: "isAbsolute root \<Longrightarrow> isAbsolute (join [root, x])"
proof -
  assume abs: "isAbsolute root"
  then have "root \<noteq> []" by (simp add: isAbsolute_def)
  moreover have "isAbsolute (if x = [] then root else root @ sep # x)"
    using abs by (simp add: isAbsolute_def)
  ultimately show ?thesis
    using join_root [of root x] isAbsolute_normalizePath by metis
qed

lemma normalizePath_idem:
  assumes "isAbsolute s"
  shows "normalizePath (normalizePath s) = normalizePath s"
proof -
  let ?segs = "normalizeSegments False [] (splitSep s)"
  have plain: "\<forall>seg \<in> set ?segs. plainSegment seg"
    by (rule normalizeSegments_plain_res) (auto dest: splitSep_segments)
  show ?thesis
  proof (cases "?segs = []")
    case True
    then have "normalizePath s = [sep]"
      using assms by (simp add: normalizePath_absolute)
    moreover have "normalizePath [sep] = [sep]"
      by (simp add: normalizePath_def normalizeString_def isAbsolute_def sep_def)
    ultimately show ?thesis by simp
  next
    case False
    let ?tail = "if last s = sep then [sep] else []"
    let ?out = "sep # joinSep ?segs @ ?tail"
    have out: "normalizePath s = ?out"
      using assms False by (simp add: normalizePath_absolute)
    have nosep: "\<forall>seg \<in> set ?segs. sep \<notin> set seg"
      using plain by (simp add: plainSegment_def)
    have nonempty: "\<forall>seg \<in> set ?segs. seg \<noteq> []"
      using plain by (simp add: plainSegment_def)
    have split_body: "splitSep (joinSep ?segs) = ?segs"
      using False nosep by (rule splitSep_joinSep)
    have split_out: "splitSep ?out = [] # ?segs @ (if last s = sep then [[]] else [])"
      using splitSep_append [of "joinSep ?segs" "[]"] split_body by simp
    have "normalizeSegments False [] (splitSep ?out) = ?segs"
    proof (cases "last s = sep")
      case True
      have "normalizeSegments False [] (splitSep ?out)
              = normalizeSegments False [] (?segs @ [] # [])"
        using split_out True by simp
      also have "\<dots> = normalizeSegments False [] (?segs @ [])"
        by (rule normalizeSegments_skip_empty)
      also have "\<dots> = ?segs"
        using plain by (simp add: normalizeSegments_plain_id)
      finally show ?thesis .
    next
      case False
      then show ?thesis
        using split_out plain by (simp add: normalizeSegments_plain_id)
    qed
    moreover have "last ?out = sep \<longleftrightarrow> last s = sep"
    proof (cases "last s = sep")
      case True
      then show ?thesis by simp
    next
      case no_trail: False
      have "joinSep ?segs \<noteq> []"
        using False nonempty joinSep_Nil_iff [of ?segs] by simp
      moreover have "last (joinSep ?segs) = last (last ?segs)"
        using False nonempty by (rule last_joinSep)
      moreover have "last (last ?segs) \<in> set (last ?segs)" "last ?segs \<in> set ?segs"
        using False nonempty by simp_all
      ultimately show ?thesis
        using no_trail nosep by auto
    qed
    moreover have "isAbsolute ?out"
      by (simp add: isAbsolute_def)
    ultimately have "normalizePath ?out = ?out"
      using False by (simp add: normalizePath_absolute)
    with out show ?thesis by simp
  qed
qed

lemma normalizePath_extra_sep:
  assumes "root \<noteq> []" "r \<noteq> []" "hd r = sep \<or> last root = sep"
  shows "normalizePath (root @ sep # r) = normalizePath (root @ r)"
proof -
  have segs: "normalizeSegments a [] (splitSep (root @ sep # r))
                = normalizeSegments a [] (splitSep (root @ r))" for a
  proof (cases "hd r = sep")
    case True
    with assms obtain r' where r: "r = sep # r'"
      by (cases r) auto
    have "splitSep (root @ sep # r) = splitSep root @ [] # splitSep r'"
      by (simp add: r splitSep_append)
    moreover have "splitSep (root @ r) = splitSep root @ splitSep r'"
      by (simp add: r splitSep_append)
    ultimately show ?thesis
      by (simp add: normalizeSegments_skip_empty)
  next
    case False
    with assms have "last root = sep" by simp
    with assms obtain root' where root: "root = root' @ [sep]"
      by (metis append_butlast_last_id)
    have "splitSep (root @ sep # r) = splitSep root' @ [] # splitSep r"
      using False splitSep_append [of root' "sep # r"] by (simp add: root)
    moreover have "splitSep (root @ r) = splitSep root' @ splitSep r"
      using splitSep_append [of root' r] by (simp add: root)
    ultimately show ?thesis
      by (simp add: normalizeSegments_skip_empty)
  qed
  have "isAbsolute (root @ sep # r) = isAbsolute (root @ r)"
    using assms by (simp add: isAbsolute_def)
  moreover have "last (root @ sep # r) = last (root @ r)"
    using assms by simp
  ultimately show ?thesis
    using assms segs by (simp add: normalizePath_def normalizeString_def Let_def)
qed

lemma join_withoutRoot:
  assumes abs: "isAbsolute root" and under: "underRoot root p" and fixed: "normalizePath p = p"
  shows "join [root, withoutRoot root p] = p"
proof -
  let ?r = "withoutRoot root p"
  have root: "root \<noteq> []" using abs by (simp add: isAbsolute_def)
  have p: "p = root @ ?r"
    using under by (metis append_take_drop_id underRoot_def withoutRoot_def)
  have r: "?r \<noteq> []"
    using under by (simp add: underRoot_def withoutRoot_def)
  have "hd ?r = p ! length root"
    using under by (simp add: underRoot_def withoutRoot_def hd_drop_conv_nth)
  with under have "hd ?r = sep \<or> last root = sep"
    by (simp add: underRoot_def)
  with root r have "normalizePath (root @ sep # ?r) = normalizePath (root @ ?r)"
    by (rule normalizePath_extra_sep)
  with root r p fixed show ?thesis
    by (simp add: join_root)
qed

lemma normalizePath_join: "isAbsolute root \<Longrightarrow> normalizePath (join [root, x]) = join [root, x]"
proof -
  assume abs: "isAbsolute root"
  then have "root \<noteq> []" by (simp add: isAbsolute_def)
  moreover have "isAbsolute (if x = [] then root else root @ sep # x)"
    using abs by (simp add: isAbsolute_def)
  ultimately show ?thesis
    using join_root [of root x] normalizePath_idem by metis
qed

section \<open>Facts about the helpers, and joins evaluated at the project root \<open>/proj\<close>\<close>

lemmas path_eval = join_def normalizePath_def normalizeString_def isAbsolute_def sep_def

lemmas default_paths = DEFAULT_contextPath_def DEFAULT_resolversPath_def
  DEFAULT_ejectFilePath_def DEFAULT_typegenPath_def DEFAULT_schemaPath_def DEFAULT_buildPath_def

lemma truthy_simps [simp]:
  "truthy None = False" "truthy (Some s) = (s \<noteq> [])"
  by (simp_all add: truthy_def)

lemma inputOrDefaultPath_falsy:
  "inputOrDefaultPath root (Some []) d = join [root, d]"
  "inputOrDefaultPath root None d = join [root, d]"
  by (simp_all add: inputOrDefaultPath_def inputOrDefaultValue_def)

lemma inputOrDefaultPath_truthy:
  "s \<noteq> [] \<Longrightarrow> inputOrDefaultPath root (Some s) d = join [root, s]"
  by (simp add: inputOrDefaultPath_def inputOrDefaultValue_def)

lemma optional_exists:
  "existsSync e path \<Longrightarrow> optional e path input msg = Inr (Some path)"
  by (simp add: optional_def)

lemma optional_missing_supplied:
  "\<not> existsSync e path \<Longrightarrow> s \<noteq> [] \<Longrightarrow> optional e path (Some s) msg = Inl (Error msg)"
  by (simp add: optional_def)

lemma optional_missing_default:
  "\<not> existsSync e path \<Longrightarrow> input = None \<or> input = Some [] \<Longrightarrow>
     optional e path input msg = Inr None"
  by (auto simp add: optional_def)

lemma join_proj_context: "join [''/proj'', ''./src/context.ts''] = ''/proj/src/context.ts''"
  by (simp add: path_eval)

lemma join_proj_resolvers: "join [''/proj'', ''./src/graphql/''] = ''/proj/src/graphql/''"
  by (simp add: path_eval)

lemma join_proj_eject: "join [''/proj'', ''./src/index.ts''] = ''/proj/src/index.ts''"
  by (simp add: path_eval)

lemma join_proj_typegen: "join [''/proj'', ''./yoga/nexus.ts''] = ''/proj/yoga/nexus.ts''"
  by (simp add: path_eval)

lemma join_proj_schema: "join [''/proj'', ''./src/schema.graphql''] = ''/proj/src/schema.graphql''"
  by (simp add: path_eval)

lemma join_proj_build: "join [''/proj'', ''./dist''] = ''/proj/dist''"
  by (simp add: path_eval)

lemma join_proj_prisma_yml: "join [''/proj'', ''prisma.yml''] = ''/proj/prisma.yml''"
  by (simp add: path_eval)

lemma join_proj_cwd_prisma_yml:
  "join [''/proj'', ''prisma'', ''prisma.yml''] = ''/proj/prisma/prisma.yml''"
  by (simp add: path_eval)

lemmas proj_joins = join_proj_context join_proj_resolvers join_proj_eject join_proj_typegen
  join_proj_schema join_proj_build join_proj_prisma_yml join_proj_cwd_prisma_yml

lemma existsSync_absolute: "isAbsolute p \<Longrightarrow> existsSync e p = (p \<in> files e)"
  by (simp add: existsSync_def)

lemma join_proj_lib_context: "join [''/proj'', ''./lib/context.ts''] = ''/proj/lib/context.ts''"
  by (simp add: path_eval)

lemma join_proj_lib_main: "join [''/proj'', ''./lib/main.ts''] = ''/proj/lib/main.ts''"
  by (simp add: path_eval)

lemma join_proj_nope: "join [''/proj'', ''./nope.ts''] = ''/proj/nope.ts''"
  by (simp add: path_eval)

section \<open>The defaulting helper\<close>

text \<open>
  Claim C9. For every default value, \<open>inputOrDefaultValue\<close> returns the user input when it
  is a non-empty string and the default otherwise: an absent input and the empty string both
  fall back to the default.
\<close>

theorem inputOrDefaultValue_policy:
  "(s \<noteq> [] \<longrightarrow> inputOrDefaultValue (Some s) d = s)
   \<and> inputOrDefaultValue (Some []) d = d
   \<and> inputOrDefaultValue None d = d"
  by (simp add: inputOrDefaultValue_def)

theorem inputOrDefaultValue_policy_witness:
  "''./lib/context.ts'' \<noteq> []
   \<and> inputOrDefaultValue (Some ''./lib/context.ts'') ''./src/context.ts'' = ''./lib/context.ts''
   \<and> inputOrDefaultValue (Some []) ''./src/context.ts'' = ''./src/context.ts''
   \<and> inputOrDefaultValue None ''./src/context.ts'' = ''./src/context.ts''"
  using inputOrDefaultValue_policy [of "''./lib/context.ts''" "''./src/context.ts''"]
  by simp

section \<open>Optional fields\<close>

text \<open>
  Claim C3. For the optional fields \<open>contextPath\<close> and \<open>ejectFilePath\<close>: when the resolved
  path exists it is returned; when it does not exist and the user supplied the value (a
  non-empty string), resolution fails with the error that names the field and the path; when
  it does not exist and the value came from the default (the input is absent or empty),
  resolution succeeds with the field absent.
\<close>

theorem optional_field_policy:
  "(existsSync e (inputOrDefaultPath root inputC DEFAULT_contextPath) \<longrightarrow>
      contextPath e root inputC = Inr (Some (inputOrDefaultPath root inputC DEFAULT_contextPath)))
   \<and> (s \<noteq> [] \<and> \<not> existsSync e (join [root, s]) \<longrightarrow>
      contextPath e root (Some s) =
        Inl (Error (''Could not find a valid `contextPath` at '' @ join [root, s])))
   \<and> (\<not> existsSync e (join [root, DEFAULT_contextPath]) \<longrightarrow>
      contextPath e root None = Inr None \<and> contextPath e root (Some []) = Inr None)
   \<and> (existsSync e (inputOrDefaultPath root inputE DEFAULT_ejectFilePath) \<longrightarrow>
      ejectFilePath e root inputE = Inr (Some (inputOrDefaultPath root inputE DEFAULT_ejectFilePath)))
   \<and> (s \<noteq> [] \<and> \<not> existsSync e (join [root, s]) \<longrightarrow>
      ejectFilePath e root (Some s) =
        Inl (Error (''Could not find a valid `ejectFilePath` at '' @ join [root, s])))
   \<and> (\<not> existsSync e (join [root, DEFAULT_ejectFilePath]) \<longrightarrow>
      ejectFilePath e root None = Inr None \<and> ejectFilePath e root (Some []) = Inr None)"
proof -
  have c1: "existsSync e (inputOrDefaultPath root inputC DEFAULT_contextPath) \<longrightarrow>
      contextPath e root inputC = Inr (Some (inputOrDefaultPath root inputC DEFAULT_contextPath))"
    by (simp add: contextPath_def Let_def optional_exists)
  have c2: "s \<noteq> [] \<and> \<not> existsSync e (join [root, s]) \<longrightarrow>
      contextPath e root (Some s) =
        Inl (Error (''Could not find a valid `contextPath` at '' @ join [root, s]))"
    by (simp add: contextPath_def Let_def inputOrDefaultPath_truthy optional_missing_supplied)
  have c3: "\<not> existsSync e (join [root, DEFAULT_contextPath]) \<longrightarrow>
      contextPath e root None = Inr None \<and> contextPath e root (Some []) = Inr None"
    by (simp add: contextPath_def Let_def inputOrDefaultPath_falsy optional_missing_default)
  have e1: "existsSync e (inputOrDefaultPath root inputE DEFAULT_ejectFilePath) \<longrightarrow>
      ejectFilePath e root inputE = Inr (Some (inputOrDefaultPath root inputE DEFAULT_ejectFilePath))"
    by (simp add: ejectFilePath_def Let_def optional_exists)
  have e2: "s \<noteq> [] \<and> \<not> existsSync e (join [root, s]) \<longrightarrow>
      ejectFilePath e root (Some s) =
        Inl (Error (''Could not find a valid `ejectFilePath` at '' @ join [root, s]))"
    by (simp add: ejectFilePath_def Let_def inputOrDefaultPath_truthy optional_missing_supplied)
  have e3: "\<not> existsSync e (join [root, DEFAULT_ejectFilePath]) \<longrightarrow>
      ejectFilePath e root None = Inr None \<and> ejectFilePath e root (Some []) = Inr None"
    by (simp add: ejectFilePath_def Let_def inputOrDefaultPath_falsy optional_missing_default)
  from c1 c2 c3 e1 e2 e3 show ?thesis by blast
qed

theorem optional_field_policy_witness:
  "contextPath \<lparr>cwd = ''/proj'', files = {''/proj/lib/context.ts'', ''/proj/lib/main.ts''}\<rparr>
       ''/proj'' (Some ''./lib/context.ts'') = Inr (Some ''/proj/lib/context.ts'')
   \<and> contextPath \<lparr>cwd = ''/proj'', files = {''/proj/lib/context.ts'', ''/proj/lib/main.ts''}\<rparr>
       ''/proj'' (Some ''./nope.ts'')
       = Inl (Error ''Could not find a valid `contextPath` at /proj/nope.ts'')
   \<and> contextPath \<lparr>cwd = ''/proj'', files = {''/proj/lib/context.ts'', ''/proj/lib/main.ts''}\<rparr>
       ''/proj'' None = Inr None
   \<and> ejectFilePath \<lparr>cwd = ''/proj'', files = {''/proj/lib/context.ts'', ''/proj/lib/main.ts''}\<rparr>
       ''/proj'' (Some ''./lib/main.ts'') = Inr (Some ''/proj/lib/main.ts'')
   \<and> ejectFilePath \<lparr>cwd = ''/proj'', files = {''/proj/lib/context.ts'', ''/proj/lib/main.ts''}\<rparr>
       ''/proj'' (Some ''./nope.ts'')
       = Inl (Error ''Could not find a valid `ejectFilePath` at /proj/nope.ts'')
   \<and> ejectFilePath \<lparr>cwd = ''/proj'', files = {''/proj/lib/context.ts'', ''/proj/lib/main.ts''}\<rparr>
       ''/proj'' (Some []) = Inr None"
  using optional_field_policy
    [of "\<lparr>cwd = ''/proj'', files = {''/proj/lib/context.ts'', ''/proj/lib/main.ts''}\<rparr>"
        "''/proj''" "Some ''./lib/context.ts''" "''./nope.ts''" "Some ''./lib/main.ts''"]
  by (simp add: inputOrDefaultPath_truthy default_paths proj_joins join_proj_lib_context
        join_proj_lib_main join_proj_nope existsSync_absolute isAbsolute_def sep_def)

lemma contextPath_absent_ok: "\<exists>r. contextPath e root None = Inr r"
  by (simp add: contextPath_def optional_def Let_def)

section \<open>Required fields\<close>

text \<open>
  Claim C4. A field with the required policy fails with an error whenever its resolved path
  does not exist, whether the value came from the default or from the input. In particular
  the empty configuration, resolved at the project root \<open>/proj\<close> without a resolvers
  directory on disk, fails with a message that names \<open>/proj/src/graphql/\<close>.
\<close>

theorem required_field_policy:
  "(\<not> existsSync e path \<longrightarrow> requiredPath e path msg = Inl (Error msg))
   \<and> (\<not> existsSync e (inputOrDefaultPath root input DEFAULT_resolversPath) \<longrightarrow>
        resolversPath e root input =
          Inl (Error (''Could not find a valid `resolversPath` at ''
                        @ inputOrDefaultPath root input DEFAULT_resolversPath)))
   \<and> (\<not> existsSync e ''/proj/src/graphql/'' \<longrightarrow>
        normalizeConfig_datamodel e ld emptyConfig ''/proj'' outDir =
          Inl (Error ''Could not find a valid `resolversPath` at /proj/src/graphql/'')
        \<and> normalizeConfig_schema e ld' emptyConfig ''/proj'' outDir =
          Inl (Error ''Could not find a valid `resolversPath` at /proj/src/graphql/''))"
proof -
  have req: "\<not> existsSync e path \<longrightarrow> requiredPath e path msg = Inl (Error msg)"
    by (simp add: requiredPath_def)
  have res: "\<not> existsSync e (inputOrDefaultPath root input DEFAULT_resolversPath) \<longrightarrow>
        resolversPath e root input =
          Inl (Error (''Could not find a valid `resolversPath` at ''
                        @ inputOrDefaultPath root input DEFAULT_resolversPath))"
    by (simp add: resolversPath_def requiredPath_def Let_def)
  have scen: "\<not> existsSync e ''/proj/src/graphql/'' \<longrightarrow>
        normalizeConfig_datamodel e ld emptyConfig ''/proj'' outDir =
          Inl (Error ''Could not find a valid `resolversPath` at /proj/src/graphql/'')
        \<and> normalizeConfig_schema e ld' emptyConfig ''/proj'' outDir =
          Inl (Error ''Could not find a valid `resolversPath` at /proj/src/graphql/'')"
  proof
    assume miss: "\<not> existsSync e ''/proj/src/graphql/''"
    have r: "resolversPath e ''/proj'' None =
        Inl (Error ''Could not find a valid `resolversPath` at /proj/src/graphql/'')"
      using miss
      by (simp add: resolversPath_def requiredPath_def Let_def inputOrDefaultPath_falsy
            DEFAULT_resolversPath_def join_proj_resolvers)
    obtain c where c: "contextPath e ''/proj'' None = Inr c"
      using contextPath_absent_ok by blast
    show "normalizeConfig_datamodel e ld emptyConfig ''/proj'' outDir =
          Inl (Error ''Could not find a valid `resolversPath` at /proj/src/graphql/'')
        \<and> normalizeConfig_schema e ld' emptyConfig ''/proj'' outDir =
          Inl (Error ''Could not find a valid `resolversPath` at /proj/src/graphql/'')"
      by (simp add: normalizeConfig_datamodel_def normalizeConfig_schema_def emptyConfig_def
            Let_def c r)
  qed
  from req res scen show ?thesis by blast
qed

theorem required_field_policy_witness:
  "requiredPath \<lparr>cwd = ''/proj'', files = {}\<rparr> ''/proj/src/graphql/'' ''missing''
     = Inl (Error ''missing'')
   \<and> resolversPath \<lparr>cwd = ''/proj'', files = {}\<rparr> ''/proj'' (Some ''./lib/resolvers'')
     = Inl (Error ''Could not find a valid `resolversPath` at /proj/lib/resolvers'')
   \<and> normalizeConfig_datamodel \<lparr>cwd = ''/proj'', files = {}\<rparr>
         (\<lambda>requests projectDir outDir. Inr ([] :: nat list)) emptyConfig ''/proj'' None
     = Inl (Error ''Could not find a valid `resolversPath` at /proj/src/graphql/'')
   \<and> normalizeConfig_schema \<lparr>cwd = ''/proj'', files = {}\<rparr>
         (\<lambda>projectDir path. Inr (0 :: nat)) emptyConfig ''/proj'' None
     = Inl (Error ''Could not find a valid `resolversPath` at /proj/src/graphql/'')"
proof -
  have j: "join [''/proj'', ''./lib/resolvers''] = ''/proj/lib/resolvers''"
    by (simp add: path_eval)
  show ?thesis
    using required_field_policy
      [of "\<lparr>cwd = ''/proj'', files = {}\<rparr>" "''/proj/src/graphql/''" "''missing''"
          "''/proj''" "Some ''./lib/resolvers''"
          "\<lambda>requests projectDir outDir. Inr ([] :: nat list)" None
          "\<lambda>projectDir path. Inr (0 :: nat)"]
    by (simp add: existsSync_absolute isAbsolute_def sep_def inputOrDefaultPath_truthy j)
qed

section \<open>The empty string as input of an optional field\<close>

text \<open>
  Claim C10. An optional field given as the empty string is resolved exactly as if it were
  absent: the default path is used, and when that path does not exist resolution does not
  fail, the field is absent in the result.
\<close>

theorem empty_string_is_absent:
  "contextPath e root (Some []) = contextPath e root None
   \<and> ejectFilePath e root (Some []) = ejectFilePath e root None
   \<and> (\<not> existsSync e (join [root, DEFAULT_contextPath]) \<longrightarrow>
        contextPath e root (Some []) = Inr None)
   \<and> (existsSync e (join [root, DEFAULT_contextPath]) \<longrightarrow>
        contextPath e root (Some []) = Inr (Some (join [root, DEFAULT_contextPath])))
   \<and> normalizeConfig_datamodel e ld (cfg\<lparr>in_contextPath := Some []\<rparr>) root outDir
       = normalizeConfig_datamodel e ld (cfg\<lparr>in_contextPath := None\<rparr>) root outDir
   \<and> normalizeConfig_schema e ld' (cfg'\<lparr>in_contextPath := Some []\<rparr>) root outDir
       = normalizeConfig_schema e ld' (cfg'\<lparr>in_contextPath := None\<rparr>) root outDir"
proof -
  have c: "contextPath e root (Some []) = contextPath e root None"
    by (simp add: contextPath_def optional_def Let_def inputOrDefaultPath_falsy)
  have ej: "ejectFilePath e root (Some []) = ejectFilePath e root None"
    by (simp add: ejectFilePath_def optional_def Let_def inputOrDefaultPath_falsy)
  have miss: "\<not> existsSync e (join [root, DEFAULT_contextPath]) \<longrightarrow>
        contextPath e root (Some []) = Inr None"
    by (simp add: contextPath_def optional_def Let_def inputOrDefaultPath_falsy)
  have there: "existsSync e (join [root, DEFAULT_contextPath]) \<longrightarrow>
        contextPath e root (Some []) = Inr (Some (join [root, DEFAULT_contextPath]))"
    by (simp add: contextPath_def optional_def Let_def inputOrDefaultPath_falsy)
  have n1: "normalizeConfig_datamodel e ld (cfg\<lparr>in_contextPath := Some []\<rparr>) root outDir
       = normalizeConfig_datamodel e ld (cfg\<lparr>in_contextPath := None\<rparr>) root outDir"
    by (simp add: normalizeConfig_datamodel_def c Let_def cong: sum.case_cong)
  have n2: "normalizeConfig_schema e ld' (cfg'\<lparr>in_contextPath := Some []\<rparr>) root outDir
       = normalizeConfig_schema e ld' (cfg'\<lparr>in_contextPath := None\<rparr>) root outDir"
    by (simp add: normalizeConfig_schema_def c cong: sum.case_cong)
  from c ej miss there n1 n2 show ?thesis by blast
qed

theorem empty_string_is_absent_witness:
  "\<not> existsSync \<lparr>cwd = ''/proj'', files = {''/proj/src/graphql/''}\<rparr> ''/proj/src/context.ts''
   \<and> contextPath \<lparr>cwd = ''/proj'', files = {''/proj/src/graphql/''}\<rparr> ''/proj'' (Some [])
       = Inr None
   \<and> existsSync \<lparr>cwd = ''/proj'', files = {''/proj/src/context.ts''}\<rparr> ''/proj/src/context.ts''
   \<and> contextPath \<lparr>cwd = ''/proj'', files = {''/proj/src/context.ts''}\<rparr> ''/proj'' (Some [])
       = Inr (Some ''/proj/src/context.ts'')"
proof -
  let ?without = "\<lparr>cwd = ''/proj'', files = {''/proj/src/graphql/''}\<rparr>"
  let ?with = "\<lparr>cwd = ''/proj'', files = {''/proj/src/context.ts''}\<rparr>"
  have j: "join [''/proj'', DEFAULT_contextPath] = ''/proj/src/context.ts''"
    by (simp add: DEFAULT_contextPath_def join_proj_context)
  have missing: "\<not> existsSync ?without ''/proj/src/context.ts''"
    by (simp add: existsSync_absolute isAbsolute_def sep_def)
  have there: "existsSync ?with ''/proj/src/context.ts''"
    by (simp add: existsSync_absolute isAbsolute_def sep_def)
  have "contextPath ?without ''/proj'' (Some []) = Inr None"
    using missing j
      empty_string_is_absent
        [of ?without "''/proj''" "\<lambda>requests projectDir outDir. Inr ([] :: nat list)"
            emptyConfig None "\<lambda>projectDir path. Inr (0 :: nat)" emptyConfig]
    by metis
  moreover have "contextPath ?with ''/proj'' (Some []) = Inr (Some ''/proj/src/context.ts'')"
    using there j
      empty_string_is_absent
        [of ?with "''/proj''" "\<lambda>requests projectDir outDir. Inr ([] :: nat list)"
            emptyConfig None "\<lambda>projectDir path. Inr (0 :: nat)" emptyConfig]
    by metis
  ultimately show ?thesis
    using missing there by blast
qed

section \<open>What a successful resolution says about its parts\<close>

lemma normalizeConfig_datamodel_Inr:
  assumes "normalizeConfig_datamodel e ld cfg root outDir = Inr r"
  shows "contextPath e root (in_contextPath cfg) = Inr (cfg_contextPath r)"
    and "resolversPath e root (in_resolversPath cfg) = Inr (cfg_resolversPath r)"
    and "ejectFilePath e root (in_ejectFilePath cfg) = Inr (cfg_ejectFilePath r)"
    and "cfg_output r = output_paths root (in_output cfg) outDir"
    and "prisma_datamodel e ld root (in_prisma cfg)
           (buildPath (output_paths root (in_output cfg) outDir)) = Inr (cfg_prisma r)"
  using assms
  by (auto simp: normalizeConfig_datamodel_def Let_def split: sum.splits)

lemma normalizeConfig_datamodel_Inr_iff:
  "normalizeConfig_datamodel e ld cfg root outDir = Inr r \<longleftrightarrow>
     contextPath e root (in_contextPath cfg) = Inr (cfg_contextPath r)
     \<and> resolversPath e root (in_resolversPath cfg) = Inr (cfg_resolversPath r)
     \<and> ejectFilePath e root (in_ejectFilePath cfg) = Inr (cfg_ejectFilePath r)
     \<and> cfg_output r = output_paths root (in_output cfg) outDir
     \<and> prisma_datamodel e ld root (in_prisma cfg)
           (buildPath (output_paths root (in_output cfg) outDir)) = Inr (cfg_prisma r)"
  by (cases r) (auto simp: normalizeConfig_datamodel_def Let_def split: sum.splits)

lemma normalizeConfig_schema_Inr:
  assumes "normalizeConfig_schema e ld cfg root outDir = Inr r"
  shows "contextPath e root (in_contextPath cfg) = Inr (cfg_contextPath r)"
    and "resolversPath e root (in_resolversPath cfg) = Inr (cfg_resolversPath r)"
    and "ejectFilePath e root (in_ejectFilePath cfg) = Inr (cfg_ejectFilePath r)"
    and "cfg_output r = output_paths root (in_output cfg) outDir"
    and "prisma_schema e ld root (in_prisma cfg) = Inr (cfg_prisma r)"
  using assms
  by (auto simp: normalizeConfig_schema_def Let_def split: sum.splits)

lemma findPrismaConfigFile_None_iff:
  "findPrismaConfigFile e root = None \<longleftrightarrow>
     \<not> existsSync e (join [root, ''prisma.yml''])
     \<and> \<not> existsSync e (join [cwd e, ''prisma'', ''prisma.yml''])"
  by (simp add: findPrismaConfigFile_def Let_def)

lemma prisma_datamodel_disabled:
  "findPrismaConfigFile e root = None \<Longrightarrow> prisma_datamodel e ld root None out = Inr None"
  by (simp add: prisma_datamodel_def)

lemma prisma_schema_disabled:
  "findPrismaConfigFile e root = None \<Longrightarrow> prisma_schema e ld root None = Inr None"
  by (simp add: prisma_schema_def)

lemma prisma_datamodel_present:
  "prisma_datamodel e ld root input out = Inr r \<Longrightarrow>
     (r \<noteq> None) = (input \<noteq> None \<or> findPrismaConfigFile e root \<noteq> None)"
  by (auto simp: prisma_datamodel_def Let_def split: if_splits sum.splits)

lemma prisma_schema_present:
  "prisma_schema e ld root input = Inr r \<Longrightarrow>
     (r \<noteq> None) = (input \<noteq> None \<or> findPrismaConfigFile e root \<noteq> None)"
  by (auto simp: prisma_schema_def Let_def split: if_splits sum.splits option.splits)

lemma join_cwd_client:
  "join [''/proj'', ''./yoga/prisma-client/index.ts''] = ''/proj/yoga/prisma-client/index.ts''"
  by (simp add: path_eval)

lemma join_proj_datamodel:
  "join [''/proj'', ''./yoga/nexus-prisma/datamodel-info.ts'']
     = ''/proj/yoga/nexus-prisma/datamodel-info.ts''"
  by (simp add: path_eval)

lemma join_proj_nexus_schema:
  "join [''/proj'', ''./yoga/nexus-prisma/nexus-prisma.ts'']
     = ''/proj/yoga/nexus-prisma/nexus-prisma.ts''"
  by (simp add: path_eval)

lemmas field_eval = contextPath_def resolversPath_def ejectFilePath_def optional_def
  requiredPath_def output_paths_def emptyOutput_def inputOrDefaultPath_def
  inputOrDefaultValue_def Let_def existsSync_def isAbsolute_def sep_def default_paths

section \<open>When the database subsystem is present\<close>

text \<open>
  Claim C1. In a resolved configuration the \<open>prisma\<close> field is present if and only if the
  user enabled it (the input is \<open>true\<close> or an override object) or the presence probe finds
  \<open>prisma.yml\<close> at the project root or under \<open>prisma/\<close> in the working directory. When the
  input is absent and the probe finds nothing, the subsystem resolves to \<open>undefined\<close> at
  once: whatever else is on disk and whatever the loader would do.
\<close>

theorem prisma_present_iff:
  "(normalizeConfig_datamodel e ld cfg root outDir = Inr r \<longrightarrow>
      (cfg_prisma r \<noteq> None) =
        (in_prisma cfg \<noteq> None \<or> existsSync e (join [root, ''prisma.yml''])
         \<or> existsSync e (join [cwd e, ''prisma'', ''prisma.yml''])))
   \<and> (normalizeConfig_schema e ld' cfg' root outDir = Inr r' \<longrightarrow>
      (cfg_prisma r' \<noteq> None) =
        (in_prisma cfg' \<noteq> None \<or> existsSync e (join [root, ''prisma.yml''])
         \<or> existsSync e (join [cwd e, ''prisma'', ''prisma.yml''])))
   \<and> (\<not> existsSync e (join [root, ''prisma.yml''])
        \<and> \<not> existsSync e (join [cwd e, ''prisma'', ''prisma.yml'']) \<longrightarrow>
      prisma_datamodel e ld root None out = Inr None \<and> prisma_schema e ld' root None = Inr None)"
proof -
  have probe: "(findPrismaConfigFile e root \<noteq> None) =
      (existsSync e (join [root, ''prisma.yml''])
       \<or> existsSync e (join [cwd e, ''prisma'', ''prisma.yml'']))"
    by (simp add: findPrismaConfigFile_None_iff)
  have dm: "normalizeConfig_datamodel e ld cfg root outDir = Inr r \<longrightarrow>
      (cfg_prisma r \<noteq> None) =
        (in_prisma cfg \<noteq> None \<or> existsSync e (join [root, ''prisma.yml''])
         \<or> existsSync e (join [cwd e, ''prisma'', ''prisma.yml'']))"
  proof
    assume "normalizeConfig_datamodel e ld cfg root outDir = Inr r"
    then have "prisma_datamodel e ld root (in_prisma cfg)
           (buildPath (output_paths root (in_output cfg) outDir)) = Inr (cfg_prisma r)"
      by (rule normalizeConfig_datamodel_Inr)
    then have "(cfg_prisma r \<noteq> None) =
        (in_prisma cfg \<noteq> None \<or> findPrismaConfigFile e root \<noteq> None)"
      by (rule prisma_datamodel_present)
    with probe show "(cfg_prisma r \<noteq> None) =
        (in_prisma cfg \<noteq> None \<or> existsSync e (join [root, ''prisma.yml''])
         \<or> existsSync e (join [cwd e, ''prisma'', ''prisma.yml'']))"
      by simp
  qed
  have sc: "normalizeConfig_schema e ld' cfg' root outDir = Inr r' \<longrightarrow>
      (cfg_prisma r' \<noteq> None) =
        (in_prisma cfg' \<noteq> None \<or> existsSync e (join [root, ''prisma.yml''])
         \<or> existsSync e (join [cwd e, ''prisma'', ''prisma.yml'']))"
  proof
    assume "normalizeConfig_schema e ld' cfg' root outDir = Inr r'"
    then have "prisma_schema e ld' root (in_prisma cfg') = Inr (cfg_prisma r')"
      by (rule normalizeConfig_schema_Inr)
    then have "(cfg_prisma r' \<noteq> None) =
        (in_prisma cfg' \<noteq> None \<or> findPrismaConfigFile e root \<noteq> None)"
      by (rule prisma_schema_present)
    with probe show "(cfg_prisma r' \<noteq> None) =
        (in_prisma cfg' \<noteq> None \<or> existsSync e (join [root, ''prisma.yml''])
         \<or> existsSync e (join [cwd e, ''prisma'', ''prisma.yml'']))"
      by simp
  qed
  have short: "\<not> existsSync e (join [root, ''prisma.yml''])
        \<and> \<not> existsSync e (join [cwd e, ''prisma'', ''prisma.yml'']) \<longrightarrow>
      prisma_datamodel e ld root None out = Inr None \<and> prisma_schema e ld' root None = Inr None"
    using findPrismaConfigFile_None_iff [of e root]
    by (simp add: prisma_datamodel_disabled prisma_schema_disabled)
  from dm sc short show ?thesis by blast
qed

theorem prisma_present_iff_witness:
  "normalizeConfig_datamodel
       \<lparr>cwd = ''/proj'', files = {''/proj/src/graphql/'', ''/proj/yoga/prisma-client/index.ts'',
          ''/proj/yoga/nexus-prisma/datamodel-info.ts'',
          ''/proj/yoga/nexus-prisma/nexus-prisma.ts''}\<rparr>
       (\<lambda>requests projectDir outDir. Inr (map fst requests))
       (emptyConfig\<lparr>in_prisma := Some PrismaTrue\<rparr>) ''/proj'' None
     = Inr \<lparr>cfg_contextPath = None, cfg_resolversPath = ''/proj/src/graphql/'',
            cfg_ejectFilePath = None,
            cfg_output = \<lparr>typegenPath = ''/proj/yoga/nexus.ts'',
                           schemaPath = ''/proj/src/schema.graphql'',
                           buildPath = ''/proj/dist''\<rparr>,
            cfg_prisma = Some \<lparr>datamodelInfo = Some ''/proj/yoga/nexus-prisma/datamodel-info.ts'',
                                client = Some ''./yoga/prisma-client/index.ts''\<rparr>\<rparr>
   \<and> normalizeConfig_schema
       \<lparr>cwd = ''/proj'', files = {''/proj/src/graphql/'', ''/proj/yoga/prisma-client/index.ts'',
          ''/proj/yoga/nexus-prisma/datamodel-info.ts'',
          ''/proj/yoga/nexus-prisma/nexus-prisma.ts''}\<rparr>
       (\<lambda>projectDir path. Inr path)
       (emptyConfig\<lparr>in_prisma := Some SchemaTrue\<rparr>) ''/proj'' None
     = Inr \<lparr>cfg_contextPath = None, cfg_resolversPath = ''/proj/src/graphql/'',
            cfg_ejectFilePath = None,
            cfg_output = \<lparr>typegenPath = ''/proj/yoga/nexus.ts'',
                           schemaPath = ''/proj/src/schema.graphql'',
                           buildPath = ''/proj/dist''\<rparr>,
            cfg_prisma = Some \<lparr>prismaClientPath = ''/proj/yoga/prisma-client/index.ts'',
                                nexusPrismaSchema = ''./yoga/nexus-prisma/nexus-prisma.ts'',
                                contextClientName = ''prisma''\<rparr>\<rparr>
   \<and> prisma_datamodel
       \<lparr>cwd = ''/proj'', files = {''/proj/src/graphql/'', ''/proj/yoga/prisma-client/index.ts'',
          ''/proj/yoga/nexus-prisma/datamodel-info.ts'',
          ''/proj/yoga/nexus-prisma/nexus-prisma.ts''}\<rparr>
       (\<lambda>requests projectDir outDir. Inr (map fst requests)) ''/proj'' None ''/proj/dist''
     = Inr None
   \<and> prisma_schema
       \<lparr>cwd = ''/proj'', files = {''/proj/src/graphql/'', ''/proj/yoga/prisma-client/index.ts'',
          ''/proj/yoga/nexus-prisma/datamodel-info.ts'',
          ''/proj/yoga/nexus-prisma/nexus-prisma.ts''}\<rparr>
       (\<lambda>projectDir path. Inr path) ''/proj'' None
     = Inr None"
proof -
  let ?e = "\<lparr>cwd = ''/proj'', files = {''/proj/src/graphql/'', ''/proj/yoga/prisma-client/index.ts'',
          ''/proj/yoga/nexus-prisma/datamodel-info.ts'',
          ''/proj/yoga/nexus-prisma/nexus-prisma.ts''}\<rparr>"
  let ?ld = "\<lambda>(requests :: (string \<times> string) list) (projectDir :: string) (outDir :: string).
               (Inr (map fst requests) :: error + string list)"
  let ?ld' = "\<lambda>(projectDir :: string) (path :: string). (Inr path :: error + string)"
  let ?out = "\<lparr>typegenPath = ''/proj/yoga/nexus.ts'', schemaPath = ''/proj/src/schema.graphql'',
                buildPath = ''/proj/dist''\<rparr>"
  let ?dm = "\<lparr>cfg_contextPath = None, cfg_resolversPath = ''/proj/src/graphql/'',
            cfg_ejectFilePath = None, cfg_output = ?out,
            cfg_prisma = Some \<lparr>datamodelInfo = Some ''/proj/yoga/nexus-prisma/datamodel-info.ts'',
                                client = Some ''./yoga/prisma-client/index.ts''\<rparr>\<rparr>"
  let ?sc = "\<lparr>cfg_contextPath = None, cfg_resolversPath = ''/proj/src/graphql/'',
            cfg_ejectFilePath = None, cfg_output = ?out,
            cfg_prisma = Some \<lparr>prismaClientPath = ''/proj/yoga/prisma-client/index.ts'',
                                nexusPrismaSchema = ''./yoga/nexus-prisma/nexus-prisma.ts'',
                                contextClientName = ''prisma''\<rparr>\<rparr>"
  have no_probe: "\<not> existsSync ?e (join [''/proj'', ''prisma.yml''])
      \<and> \<not> existsSync ?e (join [cwd ?e, ''prisma'', ''prisma.yml''])"
    by (simp add: proj_joins existsSync_absolute isAbsolute_def sep_def)
  have fields: "contextPath ?e ''/proj'' None = Inr None"
      "resolversPath ?e ''/proj'' None = Inr ''/proj/src/graphql/''"
      "ejectFilePath ?e ''/proj'' None = Inr None"
    by (simp_all add: field_eval proj_joins)
  have out: "output_paths ''/proj'' None None = ?out"
    by (simp add: field_eval proj_joins)
  have probe: "findPrismaConfigFile ?e ''/proj'' = None"
    using no_probe by (simp add: findPrismaConfigFile_None_iff)
  have prisma_dm: "prisma_datamodel ?e ?ld ''/proj'' (Some PrismaTrue) ''/proj/dist''
      = Inr (Some \<lparr>datamodelInfo = Some ''/proj/yoga/nexus-prisma/datamodel-info.ts'',
                    client = Some ''./yoga/prisma-client/index.ts''\<rparr>)"
    by (simp add: prisma_datamodel_def probe importDatamodelInfoAndClient_def element_def
          emptyPrismaObject_def DEFAULT_META_SCHEMA_PATH_def DEFAULT_PRISMA_CLIENT_PATH_def
          field_eval proj_joins join_cwd_client join_proj_datamodel)
  have prisma_sc: "prisma_schema ?e ?ld' ''/proj'' (Some SchemaTrue)
      = Inr (Some \<lparr>prismaClientPath = ''/proj/yoga/prisma-client/index.ts'',
                    nexusPrismaSchema = ''./yoga/nexus-prisma/nexus-prisma.ts'',
                    contextClientName = ''prisma''\<rparr>)"
    by (simp add: prisma_schema_def probe emptySchemaObject_def
          DEFAULT_NEXUS_PRISMA_SCHEMA_PATH_def DEFAULT_prismaClientPath_def
          DEFAULT_contextClientName_def field_eval proj_joins join_cwd_client
          join_proj_nexus_schema)
  have res_dm: "normalizeConfig_datamodel ?e ?ld (emptyConfig\<lparr>in_prisma := Some PrismaTrue\<rparr>)
      ''/proj'' None = Inr ?dm"
    by (simp add: normalizeConfig_datamodel_def emptyConfig_def fields out prisma_dm)
  have res_sc: "normalizeConfig_schema ?e ?ld' (emptyConfig\<lparr>in_prisma := Some SchemaTrue\<rparr>)
      ''/proj'' None = Inr ?sc"
    by (simp add: normalizeConfig_schema_def emptyConfig_def fields out prisma_sc)
  have "prisma_datamodel ?e ?ld ''/proj'' None ''/proj/dist'' = Inr None
      \<and> prisma_schema ?e ?ld' ''/proj'' None = Inr None"
    using no_probe res_dm res_sc
      prisma_present_iff [of ?e ?ld "emptyConfig\<lparr>in_prisma := Some PrismaTrue\<rparr>" "''/proj''"
        None ?dm ?ld' "emptyConfig\<lparr>in_prisma := Some SchemaTrue\<rparr>" ?sc "''/proj/dist''"]
    by blast
  with res_dm res_sc show ?thesis by simp
qed

section \<open>The example project resolved\<close>

lemma example_fields:
  "contextPath exampleEnv ''/proj'' None = Inr (Some ''/proj/src/context.ts'')"
  "resolversPath exampleEnv ''/proj'' None = Inr ''/proj/src/graphql/''"
  "ejectFilePath exampleEnv ''/proj'' None = Inr (Some ''/proj/src/index.ts'')"
  by (simp_all add: exampleEnv_def field_eval proj_joins)

lemma example_output:
  "output_paths ''/proj'' (Some exampleOutput) (Some ''/out/build'')
     = \<lparr>typegenPath = ''/proj/yoga/nexus.ts'', schemaPath = ''/proj/src/schema.graphql'',
        buildPath = ''/out/build''\<rparr>"
  by (simp add: exampleOutput_def field_eval proj_joins)

lemma example_no_probe:
  "findPrismaConfigFile
     \<lparr>cwd = ''/proj'',
      files = {''/proj/src/graphql/'', ''/proj/src/context.ts'', ''/proj/src/index.ts'',
               ''/proj/yoga/prisma-client/index.ts'',
               ''/proj/yoga/nexus-prisma/datamodel-info.ts'',
               ''/proj/yoga/nexus-prisma/nexus-prisma.ts''}\<rparr> ''/proj'' = None"
  by (simp add: findPrismaConfigFile_None_iff proj_joins existsSync_absolute
        isAbsolute_def sep_def)

lemma example_prisma_datamodel:
  "prisma_datamodel exampleEnv exampleLoader ''/proj'' (Some PrismaTrue) ''/out/build''
     = Inr (Some \<lparr>datamodelInfo = Some ''/proj/yoga/nexus-prisma/datamodel-info.ts'',
                   client = Some ''./yoga/prisma-client/index.ts''\<rparr>)"
  by (simp add: prisma_datamodel_def example_no_probe importDatamodelInfoAndClient_def
        element_def emptyPrismaObject_def DEFAULT_META_SCHEMA_PATH_def
        DEFAULT_PRISMA_CLIENT_PATH_def exampleLoader_def
        exampleEnv_def field_eval proj_joins join_cwd_client join_proj_datamodel)

lemma example_prisma_schema:
  "prisma_schema exampleEnv exampleDefaultLoader ''/proj'' (Some SchemaTrue)
     = Inr (Some \<lparr>prismaClientPath = ''/proj/yoga/prisma-client/index.ts'',
                   nexusPrismaSchema = ''./yoga/nexus-prisma/nexus-prisma.ts'',
                   contextClientName = ''prisma''\<rparr>)"
  by (simp add: prisma_schema_def example_no_probe emptySchemaObject_def
        DEFAULT_NEXUS_PRISMA_SCHEMA_PATH_def DEFAULT_prismaClientPath_def
        DEFAULT_contextClientName_def exampleDefaultLoader_def
        exampleEnv_def field_eval proj_joins join_cwd_client join_proj_nexus_schema)

lemma example_datamodel:
  "normalizeConfig_datamodel exampleEnv exampleLoader exampleConfig ''/proj'' (Some ''/out/build'')
     = Inr exampleResolved"
  by (simp add: normalizeConfig_datamodel_def exampleConfig_def example_fields example_output
        example_prisma_datamodel exampleResolved_def)

lemma example_schema:
  "normalizeConfig_schema exampleEnv exampleDefaultLoader exampleSchemaConfig ''/proj''
       (Some ''/out/build'')
     = Inr exampleSchemaResolved"
  by (simp add: normalizeConfig_schema_def exampleSchemaConfig_def example_fields example_output
        example_prisma_schema exampleSchemaResolved_def)

lemma buildPath_output_paths:
  "buildPath (output_paths root input outDir) =
     (case outDir of
        None \<Rightarrow> join [root, ''./dist'']
      | Some dir \<Rightarrow> if dir = [] then join [root, ''./dist''] else dir)"
  by (simp add: output_paths_def inputOrDefaultValue_def DEFAULT_buildPath_def Let_def
        split: option.splits)

section \<open>The build output path\<close>

text \<open>
  Claim C6 says that the resolved build path is the external override when one is supplied,
  the project root joined with \<open>./dist\<close> otherwise, and that the user's
  \<open>output.buildPath\<close> takes effect when the override is absent. The last part fails:
  \<open>output\<close> never reads \<open>input.buildPath\<close>. With \<open>output.buildPath = './build'\<close> and no
  override the resolved build path is \<open>/proj/dist\<close>, not \<open>/proj/build\<close>.
\<close>

theorem buildPath_user_value_counterexample:
  "buildPath (output_paths ''/proj''
       (Some \<lparr>in_typegenPath = None, in_schemaPath = None, in_buildPath = Some ''./build''\<rparr>)
       None) = ''/proj/dist''
   \<and> buildPath (output_paths ''/proj''
       (Some \<lparr>in_typegenPath = None, in_schemaPath = None, in_buildPath = Some ''./build''\<rparr>)
       None) \<noteq> join [''/proj'', ''./build'']"
proof -
  have "join [''/proj'', ''./build''] = ''/proj/build''"
    by (simp add: path_eval)
  then show ?thesis
    by (simp add: field_eval proj_joins)
qed

text \<open>
  Claim C6, amended. The resolved build path is the external override when that is a
  non-empty string, and the project root joined with \<open>./dist\<close> otherwise; it does not depend
  on the user's \<open>output\<close> input.
\<close>

theorem buildPath_resolution:
  "buildPath (output_paths root input outDir) =
     (case outDir of
        None \<Rightarrow> join [root, ''./dist'']
      | Some dir \<Rightarrow> if dir = [] then join [root, ''./dist''] else dir)
   \<and> buildPath (output_paths root input outDir) = buildPath (output_paths root None outDir)
   \<and> (normalizeConfig_datamodel e ld cfg root outDir = Inr r \<longrightarrow>
        buildPath (cfg_output r) =
          (case outDir of
             None \<Rightarrow> join [root, ''./dist'']
           | Some dir \<Rightarrow> if dir = [] then join [root, ''./dist''] else dir))
   \<and> (normalizeConfig_schema e ld' cfg' root outDir = Inr r' \<longrightarrow>
        buildPath (cfg_output r') =
          (case outDir of
             None \<Rightarrow> join [root, ''./dist'']
           | Some dir \<Rightarrow> if dir = [] then join [root, ''./dist''] else dir))"
proof -
  have indep: "buildPath (output_paths root input outDir) = buildPath (output_paths root None outDir)"
    by (simp only: buildPath_output_paths)
  have dm: "normalizeConfig_datamodel e ld cfg root outDir = Inr r \<longrightarrow>
        buildPath (cfg_output r) =
          (case outDir of
             None \<Rightarrow> join [root, ''./dist'']
           | Some dir \<Rightarrow> if dir = [] then join [root, ''./dist''] else dir)"
    using normalizeConfig_datamodel_Inr(4) [of e ld cfg root outDir r]
    by (simp add: buildPath_output_paths)
  have sc: "normalizeConfig_schema e ld' cfg' root outDir = Inr r' \<longrightarrow>
        buildPath (cfg_output r') =
          (case outDir of
             None \<Rightarrow> join [root, ''./dist'']
           | Some dir \<Rightarrow> if dir = [] then join [root, ''./dist''] else dir)"
    using normalizeConfig_schema_Inr(4) [of e ld' cfg' root outDir r']
    by (simp add: buildPath_output_paths)
  from buildPath_output_paths [of root input outDir] indep dm sc show ?thesis
    by blast
qed

theorem buildPath_resolution_witness:
  "normalizeConfig_datamodel exampleEnv exampleLoader exampleConfig ''/proj'' (Some ''/out/build'')
     = Inr exampleResolved
   \<and> normalizeConfig_schema exampleEnv exampleDefaultLoader exampleSchemaConfig ''/proj''
       (Some ''/out/build'') = Inr exampleSchemaResolved
   \<and> in_buildPath (the (in_output exampleConfig)) = Some ''./build''
   \<and> buildPath (cfg_output exampleResolved) = ''/out/build''
   \<and> buildPath (cfg_output exampleSchemaResolved) = ''/out/build''"
proof -
  have "buildPath (cfg_output exampleResolved) = ''/out/build''
      \<and> buildPath (cfg_output exampleSchemaResolved) = ''/out/build''"
    using example_datamodel example_schema
      buildPath_resolution [of "''/proj''" "Some exampleOutput" "Some ''/out/build''"
        exampleEnv exampleLoader exampleConfig exampleResolved
        exampleDefaultLoader exampleSchemaConfig exampleSchemaResolved]
    by simp
  then show ?thesis
    using example_datamodel example_schema
    by (simp add: exampleConfig_def exampleOutput_def)
qed

section \<open>Successful field resolvers\<close>

lemma isAbsolute_inputOrDefaultPath:
  "isAbsolute root \<Longrightarrow> isAbsolute (inputOrDefaultPath root input d)"
  by (simp add: inputOrDefaultPath_def Let_def isAbsolute_join)

lemma rootJoined_inputOrDefaultPath:
  "isAbsolute root \<Longrightarrow> rootJoined root input d (inputOrDefaultPath root input d)"
  using isAbsolute_inputOrDefaultPath [of root input d]
  by (simp add: rootJoined_def inputOrDefaultPath_def Let_def)

lemma optional_Some: "optional e path input msg = Inr (Some p) \<Longrightarrow> p = path \<and> existsSync e p"
  by (auto simp: optional_def split: if_splits)

lemma optional_None:
  "optional e path input msg = Inr None \<Longrightarrow> \<not> truthy input \<and> \<not> existsSync e path"
  by (auto simp: optional_def split: if_splits)

lemma requiredPath_Inr: "requiredPath e path msg = Inr p \<Longrightarrow> p = path \<and> existsSync e p"
  by (auto simp: requiredPath_def split: if_splits)

lemma contextPath_Some:
  "contextPath e root input = Inr (Some p) \<Longrightarrow>
     p = inputOrDefaultPath root input DEFAULT_contextPath \<and> existsSync e p"
  by (simp add: contextPath_def Let_def optional_Some)

lemma ejectFilePath_Some:
  "ejectFilePath e root input = Inr (Some p) \<Longrightarrow>
     p = inputOrDefaultPath root input DEFAULT_ejectFilePath \<and> existsSync e p"
  by (simp add: ejectFilePath_def Let_def optional_Some)

lemma resolversPath_Inr:
  "resolversPath e root input = Inr p \<Longrightarrow>
     p = inputOrDefaultPath root input DEFAULT_resolversPath \<and> existsSync e p"
  by (simp add: resolversPath_def Let_def requiredPath_Inr)

lemma prisma_schema_clientPath:
  "prisma_schema e ld root input = Inr (Some pc) \<Longrightarrow>
     prismaClientPath pc =
       inputOrDefaultPath root
         (in_prismaClientPath (case input of None \<Rightarrow> emptySchemaObject
                                | Some given \<Rightarrow> schemaObjectOf given))
         DEFAULT_prismaClientPath"
  by (cases input; cases "the input")
     (auto simp: prisma_schema_def Let_def requiredPath_def
           split: if_splits sum.splits option.splits)

lemma join_api_client:
  "join [''/proj/packages/api'', ''./yoga/prisma-client/index.ts'']
     = ''/proj/packages/api/yoga/prisma-client/index.ts''"
  by (simp add: path_eval)

lemma join_api_nexus_schema:
  "join [''/proj/packages/api'', ''./yoga/nexus-prisma/nexus-prisma.ts'']
     = ''/proj/packages/api/yoga/nexus-prisma/nexus-prisma.ts''"
  by (simp add: path_eval)

lemma join_api_prisma_yml:
  "join [''/proj/packages/api'', ''prisma'', ''prisma.yml'']
     = ''/proj/packages/api/prisma/prisma.yml''"
  by (simp add: path_eval)

section \<open>Resolved paths are absolute joins with the project root\<close>

text \<open>
  Claim C5. For an absolute project root (and an external build-output override that, when
  supplied, is absolute), every path of a successfully resolved configuration is absolute
  and is the join of the project root with the user's value or with the documented default:
  \<open>contextPath\<close>, \<open>resolversPath\<close>, \<open>ejectFilePath\<close>, \<open>output.typegenPath\<close>,
  \<open>output.schemaPath\<close>, the subsystem's \<open>prismaClientPath\<close>, and \<open>output.buildPath\<close>, which
  instead is the override itself when one is supplied.
\<close>

theorem resolved_paths_absolute_joins:
  assumes "isAbsolute root"
    and "case outDir of None \<Rightarrow> True | Some dir \<Rightarrow> isAbsolute dir"
  shows "(normalizeConfig_datamodel e ld cfg root outDir = Inr r \<longrightarrow>
      (case cfg_contextPath r of None \<Rightarrow> True
       | Some p \<Rightarrow> rootJoined root (in_contextPath cfg) DEFAULT_contextPath p)
      \<and> rootJoined root (in_resolversPath cfg) DEFAULT_resolversPath (cfg_resolversPath r)
      \<and> (case cfg_ejectFilePath r of None \<Rightarrow> True
         | Some p \<Rightarrow> rootJoined root (in_ejectFilePath cfg) DEFAULT_ejectFilePath p)
      \<and> rootJoined root
           (in_typegenPath (case in_output cfg of None \<Rightarrow> emptyOutput | Some given \<Rightarrow> given))
           DEFAULT_typegenPath (typegenPath (cfg_output r))
      \<and> rootJoined root
           (in_schemaPath (case in_output cfg of None \<Rightarrow> emptyOutput | Some given \<Rightarrow> given))
           DEFAULT_schemaPath (schemaPath (cfg_output r))
      \<and> isAbsolute (buildPath (cfg_output r))
      \<and> (if truthy outDir then buildPath (cfg_output r) = the outDir
          else buildPath (cfg_output r) = join [root, DEFAULT_buildPath]))
   \<and> (normalizeConfig_schema e ld' cfg' root outDir = Inr r' \<longrightarrow>
      (case cfg_contextPath r' of None \<Rightarrow> True
       | Some p \<Rightarrow> rootJoined root (in_contextPath cfg') DEFAULT_contextPath p)
      \<and> rootJoined root (in_resolversPath cfg') DEFAULT_resolversPath (cfg_resolversPath r')
      \<and> (case cfg_ejectFilePath r' of None \<Rightarrow> True
         | Some p \<Rightarrow> rootJoined root (in_ejectFilePath cfg') DEFAULT_ejectFilePath p)
      \<and> rootJoined root
           (in_typegenPath (case in_output cfg' of None \<Rightarrow> emptyOutput | Some given \<Rightarrow> given))
           DEFAULT_typegenPath (typegenPath (cfg_output r'))
      \<and> rootJoined root
           (in_schemaPath (case in_output cfg' of None \<Rightarrow> emptyOutput | Some given \<Rightarrow> given))
           DEFAULT_schemaPath (schemaPath (cfg_output r'))
      \<and> isAbsolute (buildPath (cfg_output r'))
      \<and> (if truthy outDir then buildPath (cfg_output r') = the outDir
          else buildPath (cfg_output r') = join [root, DEFAULT_buildPath])
      \<and> (case cfg_prisma r' of None \<Rightarrow> True
         | Some pc \<Rightarrow>
             rootJoined root
               (in_prismaClientPath (case in_prisma cfg' of None \<Rightarrow> emptySchemaObject
                                      | Some given \<Rightarrow> schemaObjectOf given))
               DEFAULT_prismaClientPath (prismaClientPath pc)))"
proof -
  note root = assms(1)
  have opt_ctx: "contextPath e root input = Inr c \<Longrightarrow>
      (case c of None \<Rightarrow> True | Some p \<Rightarrow> rootJoined root input DEFAULT_contextPath p)"
    for input c
    using contextPath_Some [of e root input] rootJoined_inputOrDefaultPath [OF root]
    by (cases c) auto
  have opt_ej: "ejectFilePath e root input = Inr c \<Longrightarrow>
      (case c of None \<Rightarrow> True | Some p \<Rightarrow> rootJoined root input DEFAULT_ejectFilePath p)"
    for input c
    using ejectFilePath_Some [of e root input] rootJoined_inputOrDefaultPath [OF root]
    by (cases c) auto
  have res: "resolversPath e root input = Inr p \<Longrightarrow>
      rootJoined root input DEFAULT_resolversPath p" for input p
    using resolversPath_Inr [of e root input p] rootJoined_inputOrDefaultPath [OF root]
    by auto
  have typegen: "rootJoined root
        (in_typegenPath (case input of None \<Rightarrow> emptyOutput | Some given \<Rightarrow> given))
        DEFAULT_typegenPath (typegenPath (output_paths root input outDir))" for input
    using rootJoined_inputOrDefaultPath [OF root]
    by (simp add: output_paths_def Let_def)
  have schema: "rootJoined root
        (in_schemaPath (case input of None \<Rightarrow> emptyOutput | Some given \<Rightarrow> given))
        DEFAULT_schemaPath (schemaPath (output_paths root input outDir))" for input
    using rootJoined_inputOrDefaultPath [OF root]
    by (simp add: output_paths_def Let_def)
  have build_eq: "(if truthy outDir then buildPath (output_paths root input outDir) = the outDir
      else buildPath (output_paths root input outDir) = join [root, DEFAULT_buildPath])" for input
    by (simp add: output_paths_def Let_def inputOrDefaultValue_def)
  have build_abs: "isAbsolute (buildPath (output_paths root input outDir))" for input
    using assms(2) isAbsolute_join [OF root, of DEFAULT_buildPath]
    by (cases outDir) (auto simp: output_paths_def Let_def inputOrDefaultValue_def)
  have client: "prisma_schema e ld' root input = Inr c \<Longrightarrow>
      (case c of None \<Rightarrow> True
       | Some pc \<Rightarrow>
           rootJoined root
             (in_prismaClientPath (case input of None \<Rightarrow> emptySchemaObject
                                    | Some given \<Rightarrow> schemaObjectOf given))
             DEFAULT_prismaClientPath (prismaClientPath pc))" for input c
    using prisma_schema_clientPath [of e ld' root input] rootJoined_inputOrDefaultPath [OF root]
    by (cases c) auto
  have dm: "normalizeConfig_datamodel e ld cfg root outDir = Inr r \<longrightarrow>
      (case cfg_contextPath r of None \<Rightarrow> True
       | Some p \<Rightarrow> rootJoined root (in_contextPath cfg) DEFAULT_contextPath p)
      \<and> rootJoined root (in_resolversPath cfg) DEFAULT_resolversPath (cfg_resolversPath r)
      \<and> (case cfg_ejectFilePath r of None \<Rightarrow> True
         | Some p \<Rightarrow> rootJoined root (in_ejectFilePath cfg) DEFAULT_ejectFilePath p)
      \<and> rootJoined root
           (in_typegenPath (case in_output cfg of None \<Rightarrow> emptyOutput | Some given \<Rightarrow> given))
           DEFAULT_typegenPath (typegenPath (cfg_output r))
      \<and> rootJoined root
           (in_schemaPath (case in_output cfg of None \<Rightarrow> emptyOutput | Some given \<Rightarrow> given))
           DEFAULT_schemaPath (schemaPath (cfg_output r))
      \<and> isAbsolute (buildPath (cfg_output r))
      \<and> (if truthy outDir then buildPath (cfg_output r) = the outDir
          else buildPath (cfg_output r) = join [root, DEFAULT_buildPath])"
  proof
    assume ok: "normalizeConfig_datamodel e ld cfg root outDir = Inr r"
    note parts = normalizeConfig_datamodel_Inr [OF ok]
    show "(case cfg_contextPath r of None \<Rightarrow> True
       | Some p \<Rightarrow> rootJoined root (in_contextPath cfg) DEFAULT_contextPath p)
      \<and> rootJoined root (in_resolversPath cfg) DEFAULT_resolversPath (cfg_resolversPath r)
      \<and> (case cfg_ejectFilePath r of None \<Rightarrow> True
         | Some p \<Rightarrow> rootJoined root (in_ejectFilePath cfg) DEFAULT_ejectFilePath p)
      \<and> rootJoined root
           (in_typegenPath (case in_output cfg of None \<Rightarrow> emptyOutput | Some given \<Rightarrow> given))
           DEFAULT_typegenPath (typegenPath (cfg_output r))
      \<and> rootJoined root
           (in_schemaPath (case in_output cfg of None \<Rightarrow> emptyOutput | Some given \<Rightarrow> given))
           DEFAULT_schemaPath (schemaPath (cfg_output r))
      \<and> isAbsolute (buildPath (cfg_output r))
      \<and> (if truthy outDir then buildPath (cfg_output r) = the outDir
          else buildPath (cfg_output r) = join [root, DEFAULT_buildPath])"
      using opt_ctx [OF parts(1)] res [OF parts(2)] opt_ej [OF parts(3)]
        typegen [of "in_output cfg"] schema [of "in_output cfg"]
        build_abs [of "in_output cfg"] build_eq [of "in_output cfg"]
      by (simp only: parts(4) simp_thms)
  qed
  have sc: "normalizeConfig_schema e ld' cfg' root outDir = Inr r' \<longrightarrow>
      (case cfg_contextPath r' of None \<Rightarrow> True
       | Some p \<Rightarrow> rootJoined root (in_contextPath cfg') DEFAULT_contextPath p)
      \<and> rootJoined root (in_resolversPath cfg') DEFAULT_resolversPath (cfg_resolversPath r')
      \<and> (case cfg_ejectFilePath r' of None \<Rightarrow> True
         | Some p \<Rightarrow> rootJoined root (in_ejectFilePath cfg') DEFAULT_ejectFilePath p)
      \<and> rootJoined root
           (in_typegenPath (case in_output cfg' of None \<Rightarrow> emptyOutput | Some given \<Rightarrow> given))
           DEFAULT_typegenPath (typegenPath (cfg_output r'))
      \<and> rootJoined root
           (in_schemaPath (case in_output cfg' of None \<Rightarrow> emptyOutput | Some given \<Rightarrow> given))
           DEFAULT_schemaPath (schemaPath (cfg_output r'))
      \<and> isAbsolute (buildPath (cfg_output r'))
      \<and> (if truthy outDir then buildPath (cfg_output r') = the outDir
          else buildPath (cfg_output r') = join [root, DEFAULT_buildPath])
      \<and> (case cfg_prisma r' of None \<Rightarrow> True
         | Some pc \<Rightarrow>
             rootJoined root
               (in_prismaClientPath (case in_prisma cfg' of None \<Rightarrow> emptySchemaObject
                                      | Some given \<Rightarrow> schemaObjectOf given))
               DEFAULT_prismaClientPath (prismaClientPath pc))"
  proof
    assume ok: "normalizeConfig_schema e ld' cfg' root outDir = Inr r'"
    note parts = normalizeConfig_schema_Inr [OF ok]
    show "(case cfg_contextPath r' of None \<Rightarrow> True
       | Some p \<Rightarrow> rootJoined root (in_contextPath cfg') DEFAULT_contextPath p)
      \<and> rootJoined root (in_resolversPath cfg') DEFAULT_resolversPath (cfg_resolversPath r')
      \<and> (case cfg_ejectFilePath r' of None \<Rightarrow> True
         | Some p \<Rightarrow> rootJoined root (in_ejectFilePath cfg') DEFAULT_ejectFilePath p)
      \<and> rootJoined root
           (in_typegenPath (case in_output cfg' of None \<Rightarrow> emptyOutput | Some given \<Rightarrow> given))
           DEFAULT_typegenPath (typegenPath (cfg_output r'))
      \<and> rootJoined root
           (in_schemaPath (case in_output cfg' of None \<Rightarrow> emptyOutput | Some given \<Rightarrow> given))
           DEFAULT_schemaPath (schemaPath (cfg_output r'))
      \<and> isAbsolute (buildPath (cfg_output r'))
      \<and> (if truthy outDir then buildPath (cfg_output r') = the outDir
          else buildPath (cfg_output r') = join [root, DEFAULT_buildPath])
      \<and> (case cfg_prisma r' of None \<Rightarrow> True
         | Some pc \<Rightarrow>
             rootJoined root
               (in_prismaClientPath (case in_prisma cfg' of None \<Rightarrow> emptySchemaObject
                                      | Some given \<Rightarrow> schemaObjectOf given))
               DEFAULT_prismaClientPath (prismaClientPath pc))"
      using opt_ctx [OF parts(1)] res [OF parts(2)] opt_ej [OF parts(3)]
        typegen [of "in_output cfg'"] schema [of "in_output cfg'"]
        build_abs [of "in_output cfg'"] build_eq [of "in_output cfg'"] client [OF parts(5)]
      by (simp only: parts(4) simp_thms)
  qed
  from dm sc show ?thesis by (rule conjI)
qed

theorem resolved_paths_absolute_joins_witness:
  "isAbsolute ''/proj'' \<and> isAbsolute ''/out/build''
   \<and> normalizeConfig_datamodel exampleEnv exampleLoader exampleConfig ''/proj''
         (Some ''/out/build'') = Inr exampleResolved
   \<and> normalizeConfig_schema exampleEnv exampleDefaultLoader exampleSchemaConfig ''/proj''
         (Some ''/out/build'') = Inr exampleSchemaResolved
   \<and> rootJoined ''/proj'' None DEFAULT_contextPath ''/proj/src/context.ts''
   \<and> rootJoined ''/proj'' None DEFAULT_resolversPath ''/proj/src/graphql/''
   \<and> rootJoined ''/proj'' None DEFAULT_ejectFilePath ''/proj/src/index.ts''
   \<and> rootJoined ''/proj'' None DEFAULT_typegenPath ''/proj/yoga/nexus.ts''
   \<and> rootJoined ''/proj'' None DEFAULT_schemaPath ''/proj/src/schema.graphql''
   \<and> rootJoined ''/proj'' None DEFAULT_prismaClientPath ''/proj/yoga/prisma-client/index.ts''"
proof -
  have abs: "isAbsolute ''/proj''" "isAbsolute ''/out/build''"
    by (simp_all add: isAbsolute_def sep_def)
  have over: "case Some ''/out/build'' of None \<Rightarrow> True | Some dir \<Rightarrow> isAbsolute dir"
    using abs by simp
  note inst = resolved_paths_absolute_joins [OF abs(1) over, of exampleEnv exampleLoader
    exampleConfig exampleResolved exampleDefaultLoader exampleSchemaConfig exampleSchemaResolved]
  from inst example_datamodel have dm:
    "rootJoined ''/proj'' None DEFAULT_contextPath ''/proj/src/context.ts''
     \<and> rootJoined ''/proj'' None DEFAULT_resolversPath ''/proj/src/graphql/''
     \<and> rootJoined ''/proj'' None DEFAULT_ejectFilePath ''/proj/src/index.ts''
     \<and> rootJoined ''/proj'' None DEFAULT_typegenPath ''/proj/yoga/nexus.ts''
     \<and> rootJoined ''/proj'' None DEFAULT_schemaPath ''/proj/src/schema.graphql''"
    by (simp add: exampleResolved_def exampleConfig_def exampleOutput_def)
  from inst example_schema have
    "rootJoined ''/proj'' None DEFAULT_prismaClientPath ''/proj/yoga/prisma-client/index.ts''"
    by (simp add: exampleSchemaResolved_def exampleSchemaConfig_def emptySchemaObject_def)
  with dm abs example_datamodel example_schema show ?thesis
    by simp
qed

section \<open>The client-binding path of the database subsystem\<close>

text \<open>
  Claim C2. With the database subsystem enabled and no inline client, the client path is
  resolved with the required policy: when \<open>/proj/yoga/prisma-client/index.ts\<close> does not
  exist, resolution fails with an error whose message names the client path. The variant
  with a datamodel-info file calls \<open>requiredPath(DEFAULT_PRISMA_CLIENT_PATH, '')\<close>: the path
  is not joined with the project root and the message is empty. The theorem evaluates that
  variant for \<open>{ prisma: true }\<close> at \<open>/proj\<close>: on a project without the client file the
  error message is the empty string, and a process running in \<open>/proj/packages/api\<close> with a
  client file below its working directory resolves successfully although
  \<open>/proj/yoga/prisma-client/index.ts\<close> is missing.
\<close>

theorem client_check_empty_message_and_unjoined:
  "normalizeConfig_datamodel \<lparr>cwd = ''/proj'', files = {''/proj/src/graphql/''}\<rparr>
       exampleLoader (emptyConfig\<lparr>in_prisma := Some PrismaTrue\<rparr>) ''/proj'' None
     = Inl (Error [])
   \<and> \<not> existsSync
         \<lparr>cwd = ''/proj/packages/api'',
          files = {''/proj/src/graphql/'', ''/proj/packages/api/yoga/prisma-client/index.ts'',
                   ''/proj/yoga/nexus-prisma/datamodel-info.ts''}\<rparr>
         ''/proj/yoga/prisma-client/index.ts''
   \<and> normalizeConfig_datamodel
         \<lparr>cwd = ''/proj/packages/api'',
          files = {''/proj/src/graphql/'', ''/proj/packages/api/yoga/prisma-client/index.ts'',
                   ''/proj/yoga/nexus-prisma/datamodel-info.ts''}\<rparr>
         exampleLoader (emptyConfig\<lparr>in_prisma := Some PrismaTrue\<rparr>) ''/proj'' None
     = Inr \<lparr>cfg_contextPath = None, cfg_resolversPath = ''/proj/src/graphql/'',
            cfg_ejectFilePath = None,
            cfg_output = \<lparr>typegenPath = ''/proj/yoga/nexus.ts'',
                           schemaPath = ''/proj/src/schema.graphql'',
                           buildPath = ''/proj/dist''\<rparr>,
            cfg_prisma = Some \<lparr>datamodelInfo = Some ''/proj/yoga/nexus-prisma/datamodel-info.ts'',
                                client = Some ''./yoga/prisma-client/index.ts''\<rparr>\<rparr>"
proof -
  let ?bare = "\<lparr>cwd = ''/proj'', files = {''/proj/src/graphql/''}\<rparr>"
  let ?api = "\<lparr>cwd = ''/proj/packages/api'',
          files = {''/proj/src/graphql/'', ''/proj/packages/api/yoga/prisma-client/index.ts'',
                   ''/proj/yoga/nexus-prisma/datamodel-info.ts''}\<rparr>"
  have bare_fields: "contextPath ?bare ''/proj'' None = Inr None"
      "resolversPath ?bare ''/proj'' None = Inr ''/proj/src/graphql/''"
      "ejectFilePath ?bare ''/proj'' None = Inr None"
    by (simp_all add: field_eval proj_joins)
  have api_fields: "contextPath ?api ''/proj'' None = Inr None"
      "resolversPath ?api ''/proj'' None = Inr ''/proj/src/graphql/''"
      "ejectFilePath ?api ''/proj'' None = Inr None"
    by (simp_all add: field_eval proj_joins)
  have out: "output_paths ''/proj'' None None
      = \<lparr>typegenPath = ''/proj/yoga/nexus.ts'', schemaPath = ''/proj/src/schema.graphql'',
         buildPath = ''/proj/dist''\<rparr>"
    by (simp add: field_eval proj_joins)
  have bare_prisma: "prisma_datamodel ?bare exampleLoader ''/proj'' (Some PrismaTrue) ''/proj/dist''
      = Inl (Error [])"
    by (simp add: prisma_datamodel_def findPrismaConfigFile_def importDatamodelInfoAndClient_def
          emptyPrismaObject_def DEFAULT_PRISMA_CLIENT_PATH_def field_eval proj_joins
          join_cwd_client)
  have api_prisma: "prisma_datamodel ?api exampleLoader ''/proj'' (Some PrismaTrue) ''/proj/dist''
      = Inr (Some \<lparr>datamodelInfo = Some ''/proj/yoga/nexus-prisma/datamodel-info.ts'',
                    client = Some ''./yoga/prisma-client/index.ts''\<rparr>)"
    by (simp add: prisma_datamodel_def findPrismaConfigFile_def importDatamodelInfoAndClient_def
          element_def emptyPrismaObject_def DEFAULT_META_SCHEMA_PATH_def
          DEFAULT_PRISMA_CLIENT_PATH_def exampleLoader_def field_eval proj_joins
          join_api_client join_api_prisma_yml join_proj_datamodel)
  have missing: "\<not> existsSync ?api ''/proj/yoga/prisma-client/index.ts''"
    by (simp add: existsSync_absolute isAbsolute_def sep_def)
  have "normalizeConfig_datamodel ?bare exampleLoader (emptyConfig\<lparr>in_prisma := Some PrismaTrue\<rparr>)
      ''/proj'' None = Inl (Error [])"
    by (simp add: normalizeConfig_datamodel_def emptyConfig_def bare_fields out bare_prisma)
  moreover have "normalizeConfig_datamodel ?api exampleLoader
      (emptyConfig\<lparr>in_prisma := Some PrismaTrue\<rparr>) ''/proj'' None
     = Inr \<lparr>cfg_contextPath = None, cfg_resolversPath = ''/proj/src/graphql/'',
            cfg_ejectFilePath = None,
            cfg_output = \<lparr>typegenPath = ''/proj/yoga/nexus.ts'',
                           schemaPath = ''/proj/src/schema.graphql'',
                           buildPath = ''/proj/dist''\<rparr>,
            cfg_prisma = Some \<lparr>datamodelInfo = Some ''/proj/yoga/nexus-prisma/datamodel-info.ts'',
                                client = Some ''./yoga/prisma-client/index.ts''\<rparr>\<rparr>"
    by (simp add: normalizeConfig_datamodel_def emptyConfig_def api_fields out api_prisma)
  ultimately show ?thesis
    using missing by simp
qed

section \<open>The schema descriptor of the database subsystem\<close>

text \<open>
  Claim C7. With the database subsystem enabled, an inline descriptor object is used as it
  is, without a filesystem check; otherwise the default descriptor path is resolved against
  the project root with the required policy and its default export is loaded. The variant
  with an inline schema calls \<open>requiredPath\<close> on \<open>DEFAULT_NEXUS_PRISMA_SCHEMA_PATH\<close> as it
  stands, not joined with the project root (the client path beside it is joined). The
  theorem evaluates that variant for \<open>{ prisma: true }\<close> at \<open>/proj\<close> in a process running
  in \<open>/proj/packages/api\<close>: the descriptor exists at the path resolved against the project
  root, and resolution fails, reporting the descriptor as missing.
\<close>

theorem schema_check_unjoined:
  "existsSync
       \<lparr>cwd = ''/proj/packages/api'',
        files = {''/proj/src/graphql/'', ''/proj/yoga/nexus-prisma/nexus-prisma.ts'',
                 ''/proj/yoga/prisma-client/index.ts''}\<rparr>
       (join [''/proj'', DEFAULT_NEXUS_PRISMA_SCHEMA_PATH])
   \<and> normalizeConfig_schema
       \<lparr>cwd = ''/proj/packages/api'',
        files = {''/proj/src/graphql/'', ''/proj/yoga/nexus-prisma/nexus-prisma.ts'',
                 ''/proj/yoga/prisma-client/index.ts''}\<rparr>
       exampleDefaultLoader (emptyConfig\<lparr>in_prisma := Some SchemaTrue\<rparr>) ''/proj'' None
     = Inl (Error (''Could not find a valid `prisma.nexusPrismaSchema` at ''
                     @ ''./yoga/nexus-prisma/nexus-prisma.ts''))"
proof -
  let ?api = "\<lparr>cwd = ''/proj/packages/api'',
        files = {''/proj/src/graphql/'', ''/proj/yoga/nexus-prisma/nexus-prisma.ts'',
                 ''/proj/yoga/prisma-client/index.ts''}\<rparr>"
  have there: "existsSync ?api (join [''/proj'', DEFAULT_NEXUS_PRISMA_SCHEMA_PATH])"
    by (simp add: DEFAULT_NEXUS_PRISMA_SCHEMA_PATH_def join_proj_nexus_schema
          existsSync_absolute isAbsolute_def sep_def)
  have fields: "contextPath ?api ''/proj'' None = Inr None"
      "resolversPath ?api ''/proj'' None = Inr ''/proj/src/graphql/''"
      "ejectFilePath ?api ''/proj'' None = Inr None"
    by (simp_all add: field_eval proj_joins)
  have prisma: "prisma_schema ?api exampleDefaultLoader ''/proj'' (Some SchemaTrue)
      = Inl (Error (''Could not find a valid `prisma.nexusPrismaSchema` at ''
                      @ ''./yoga/nexus-prisma/nexus-prisma.ts''))"
    by (simp add: prisma_schema_def findPrismaConfigFile_def emptySchemaObject_def
          DEFAULT_NEXUS_PRISMA_SCHEMA_PATH_def DEFAULT_prismaClientPath_def
          field_eval proj_joins join_api_nexus_schema join_api_prisma_yml)
  have "normalizeConfig_schema ?api exampleDefaultLoader
      (emptyConfig\<lparr>in_prisma := Some SchemaTrue\<rparr>) ''/proj'' None
     = Inl (Error (''Could not find a valid `prisma.nexusPrismaSchema` at ''
                     @ ''./yoga/nexus-prisma/nexus-prisma.ts''))"
    by (simp add: normalizeConfig_schema_def emptyConfig_def fields prisma)
  with there show ?thesis by simp
qed

section \<open>Resolving a path again from its remainder below the root\<close>

lemma inputOrDefaultPath_again:
  assumes "isAbsolute root" and "underRoot root (inputOrDefaultPath root input d)"
  shows "inputOrDefaultPath root (Some (withoutRoot root (inputOrDefaultPath root input d))) d'
           = inputOrDefaultPath root input d"
    and "truthy (Some (withoutRoot root (inputOrDefaultPath root input d)))"
proof -
  let ?p = "inputOrDefaultPath root input d"
  have "normalizePath ?p = ?p"
    using assms(1) by (simp add: inputOrDefaultPath_def Let_def normalizePath_join)
  with assms have "join [root, withoutRoot root ?p] = ?p"
    by (rule join_withoutRoot)
  moreover show nonempty: "truthy (Some (withoutRoot root ?p))"
    using assms(2) by (simp add: underRoot_def withoutRoot_def)
  ultimately show "inputOrDefaultPath root (Some (withoutRoot root ?p)) d' = ?p"
    by (simp add: inputOrDefaultPath_truthy)
qed

lemma optional_again:
  assumes "isAbsolute root"
    and "optional e (inputOrDefaultPath root input d) input msg = Inr c"
    and "case c of None \<Rightarrow> True | Some p \<Rightarrow> underRoot root p"
  shows "optional e (inputOrDefaultPath root (map_option (withoutRoot root) c) d)
           (map_option (withoutRoot root) c) msg' = Inr c"
proof (cases c)
  case None
  with assms(2) have "\<not> truthy input" "\<not> existsSync e (inputOrDefaultPath root input d)"
    using optional_None by blast+
  then have "\<not> existsSync e (inputOrDefaultPath root None d)"
    by (cases input) (simp_all add: inputOrDefaultPath_falsy)
  with None show ?thesis
    by (simp add: optional_def)
next
  case (Some p)
  with assms(2) have p: "p = inputOrDefaultPath root input d" and ex: "existsSync e p"
    using optional_Some by blast+
  from assms(3) Some p have under: "underRoot root (inputOrDefaultPath root input d)"
    by simp
  have "inputOrDefaultPath root (Some (withoutRoot root p)) d = p"
    using inputOrDefaultPath_again(1) [OF assms(1) under] p by simp
  with Some ex show ?thesis
    by (simp add: optional_def)
qed

lemma contextPath_again:
  assumes "isAbsolute root" and "contextPath e root input = Inr c"
    and "case c of None \<Rightarrow> True | Some p \<Rightarrow> underRoot root p"
  shows "contextPath e root (map_option (withoutRoot root) c) = Inr c"
proof -
  from assms(2) have "optional e (inputOrDefaultPath root input DEFAULT_contextPath) input
      (''Could not find a valid `contextPath` at ''
         @ inputOrDefaultPath root input DEFAULT_contextPath) = Inr c"
    by (simp add: contextPath_def Let_def)
  from optional_again [OF assms(1) this assms(3)] show ?thesis
    by (simp add: contextPath_def Let_def)
qed

lemma ejectFilePath_again:
  assumes "isAbsolute root" and "ejectFilePath e root input = Inr c"
    and "case c of None \<Rightarrow> True | Some p \<Rightarrow> underRoot root p"
  shows "ejectFilePath e root (map_option (withoutRoot root) c) = Inr c"
proof -
  from assms(2) have "optional e (inputOrDefaultPath root input DEFAULT_ejectFilePath) input
      (''Could not find a valid `ejectFilePath` at ''
         @ inputOrDefaultPath root input DEFAULT_ejectFilePath) = Inr c"
    by (simp add: ejectFilePath_def Let_def)
  from optional_again [OF assms(1) this assms(3)] show ?thesis
    by (simp add: ejectFilePath_def Let_def)
qed

lemma resolversPath_again:
  assumes "isAbsolute root" and "resolversPath e root input = Inr p" and "underRoot root p"
  shows "resolversPath e root (Some (withoutRoot root p)) = Inr p"
proof -
  from assms(2) have p: "p = inputOrDefaultPath root input DEFAULT_resolversPath"
    and ex: "existsSync e p"
    using resolversPath_Inr by blast+
  from assms(3) p have under: "underRoot root (inputOrDefaultPath root input DEFAULT_resolversPath)"
    by simp
  have "inputOrDefaultPath root (Some (withoutRoot root p)) DEFAULT_resolversPath = p"
    using inputOrDefaultPath_again(1) [OF assms(1) under] p by simp
  with ex show ?thesis
    by (simp add: resolversPath_def Let_def requiredPath_def)
qed

lemma output_paths_again:
  assumes "isAbsolute root"
    and "underRoot root (typegenPath (output_paths root input outDir))"
    and "underRoot root (schemaPath (output_paths root input outDir))"
  shows "output_paths root
           (Some \<lparr>in_typegenPath = Some (withoutRoot root (typegenPath (output_paths root input outDir))),
                  in_schemaPath = Some (withoutRoot root (schemaPath (output_paths root input outDir))),
                  in_buildPath = b\<rparr>) outDir
         = output_paths root input outDir"
proof -
  let ?given = "case input of None \<Rightarrow> emptyOutput | Some i \<Rightarrow> i"
  have tg: "typegenPath (output_paths root input outDir)
      = inputOrDefaultPath root (in_typegenPath ?given) DEFAULT_typegenPath"
    and sp: "schemaPath (output_paths root input outDir)
      = inputOrDefaultPath root (in_schemaPath ?given) DEFAULT_schemaPath"
    by (simp_all add: output_paths_def Let_def)
  have "inputOrDefaultPath root
          (Some (withoutRoot root (typegenPath (output_paths root input outDir))))
          DEFAULT_typegenPath = typegenPath (output_paths root input outDir)"
    using inputOrDefaultPath_again(1) [OF assms(1), of "in_typegenPath ?given" DEFAULT_typegenPath]
      assms(2) by (simp only: tg)
  moreover have "inputOrDefaultPath root
          (Some (withoutRoot root (schemaPath (output_paths root input outDir))))
          DEFAULT_schemaPath = schemaPath (output_paths root input outDir)"
    using inputOrDefaultPath_again(1) [OF assms(1), of "in_schemaPath ?given" DEFAULT_schemaPath]
      assms(3) by (simp only: sp)
  ultimately show ?thesis
    by (simp add: output_paths_def Let_def)
qed

section \<open>Resolving the raw form of a resolved configuration\<close>

text \<open>
  Claim C8 says that resolution is idempotent: the raw form re-derived from a resolved
  configuration (each resolved path minus the project root) resolves, with the same project
  root, override and filesystem, to the same configuration. It fails when a resolved path
  is the project root itself: for \<open>resolversPath: '.'\<close> the resolved path is \<open>/proj\<close>, its
  raw form is the empty string, which counts as absent, and the second resolution falls
  back to the default \<open>./src/graphql/\<close>, which here does not exist.
\<close>

theorem resolution_not_idempotent_counterexample:
  "normalizeConfig_datamodel \<lparr>cwd = ''/proj'', files = {''/proj''}\<rparr> exampleLoader
       (emptyConfig\<lparr>in_resolversPath := Some ''.''\<rparr>) ''/proj'' None
     = Inr \<lparr>cfg_contextPath = None, cfg_resolversPath = ''/proj'', cfg_ejectFilePath = None,
            cfg_output = \<lparr>typegenPath = ''/proj/yoga/nexus.ts'',
                           schemaPath = ''/proj/src/schema.graphql'',
                           buildPath = ''/proj/dist''\<rparr>,
            cfg_prisma = None\<rparr>
   \<and> normalizeConfig_datamodel \<lparr>cwd = ''/proj'', files = {''/proj''}\<rparr> exampleLoader
       (rawOf ''/proj'' None
          \<lparr>cfg_contextPath = None, cfg_resolversPath = ''/proj'', cfg_ejectFilePath = None,
            cfg_output = \<lparr>typegenPath = ''/proj/yoga/nexus.ts'',
                           schemaPath = ''/proj/src/schema.graphql'',
                           buildPath = ''/proj/dist''\<rparr>,
            cfg_prisma = None\<rparr>) ''/proj'' None
     = Inl (Error ''Could not find a valid `resolversPath` at /proj/src/graphql/'')"
proof -
  let ?e = "\<lparr>cwd = ''/proj'', files = {''/proj''}\<rparr>"
  have j: "join [''/proj'', ''.''] = ''/proj''"
    by (simp add: path_eval)
  have fields: "contextPath ?e ''/proj'' None = Inr None"
      "resolversPath ?e ''/proj'' (Some ''.'') = Inr ''/proj''"
      "resolversPath ?e ''/proj'' (Some [])
         = Inl (Error ''Could not find a valid `resolversPath` at /proj/src/graphql/'')"
      "ejectFilePath ?e ''/proj'' None = Inr None"
    by (simp_all add: field_eval proj_joins j)
  have out: "output_paths ''/proj'' None None
      = \<lparr>typegenPath = ''/proj/yoga/nexus.ts'', schemaPath = ''/proj/src/schema.graphql'',
         buildPath = ''/proj/dist''\<rparr>"
    by (simp add: field_eval proj_joins)
  have prisma: "prisma_datamodel ?e exampleLoader ''/proj'' None ''/proj/dist'' = Inr None"
    by (simp add: prisma_datamodel_def findPrismaConfigFile_def field_eval proj_joins)
  have first: "normalizeConfig_datamodel ?e exampleLoader
       (emptyConfig\<lparr>in_resolversPath := Some ''.''\<rparr>) ''/proj'' None
     = Inr \<lparr>cfg_contextPath = None, cfg_resolversPath = ''/proj'', cfg_ejectFilePath = None,
            cfg_output = \<lparr>typegenPath = ''/proj/yoga/nexus.ts'',
                           schemaPath = ''/proj/src/schema.graphql'',
                           buildPath = ''/proj/dist''\<rparr>,
            cfg_prisma = None\<rparr>"
    by (simp add: normalizeConfig_datamodel_def emptyConfig_def fields out prisma)
  have second: "normalizeConfig_datamodel ?e exampleLoader
       (rawOf ''/proj'' None
          \<lparr>cfg_contextPath = None, cfg_resolversPath = ''/proj'', cfg_ejectFilePath = None,
            cfg_output = \<lparr>typegenPath = ''/proj/yoga/nexus.ts'',
                           schemaPath = ''/proj/src/schema.graphql'',
                           buildPath = ''/proj/dist''\<rparr>,
            cfg_prisma = None\<rparr>) ''/proj'' None
     = Inl (Error ''Could not find a valid `resolversPath` at /proj/src/graphql/'')"
    by (simp add: normalizeConfig_datamodel_def rawOf_def withoutRoot_def fields)
  from first second show ?thesis by (rule conjI)
qed

text \<open>
  Claim C8, amended. For an absolute project root, when every resolved path other than the
  build path lies strictly below the project root (it is the root followed by a non-empty
  remainder that starts a new segment), resolving the re-derived raw form, with the
  subsystem's input kept as it was given, yields the same resolved configuration.
\<close>

theorem resolution_idempotent_below_root:
  assumes "isAbsolute root"
    and "normalizeConfig_datamodel e ld cfg root outDir = Inr r"
    and "case cfg_contextPath r of None \<Rightarrow> True | Some p \<Rightarrow> underRoot root p"
    and "underRoot root (cfg_resolversPath r)"
    and "case cfg_ejectFilePath r of None \<Rightarrow> True | Some p \<Rightarrow> underRoot root p"
    and "underRoot root (typegenPath (cfg_output r))"
    and "underRoot root (schemaPath (cfg_output r))"
  shows "normalizeConfig_datamodel e ld (rawOf root (in_prisma cfg) r) root outDir = Inr r"
proof -
  note parts = normalizeConfig_datamodel_Inr [OF assms(2)]
  let ?raw = "rawOf root (in_prisma cfg) r"
  have ctx: "contextPath e root (in_contextPath ?raw) = Inr (cfg_contextPath r)"
    using contextPath_again [OF assms(1) parts(1) assms(3)] by (simp add: rawOf_def)
  have res: "resolversPath e root (in_resolversPath ?raw) = Inr (cfg_resolversPath r)"
    using resolversPath_again [OF assms(1) parts(2) assms(4)] by (simp add: rawOf_def)
  have ej: "ejectFilePath e root (in_ejectFilePath ?raw) = Inr (cfg_ejectFilePath r)"
    using ejectFilePath_again [OF assms(1) parts(3) assms(5)] by (simp add: rawOf_def)
  have out: "output_paths root (in_output ?raw) outDir = output_paths root (in_output cfg) outDir"
    using output_paths_again [OF assms(1), of "in_output cfg" outDir] assms(6,7)
    by (simp add: rawOf_def parts(4))
  have prisma: "prisma_datamodel e ld root (in_prisma ?raw)
      (buildPath (output_paths root (in_output ?raw) outDir)) = Inr (cfg_prisma r)"
    using parts(5) by (simp add: out) (simp add: rawOf_def)
  from ctx res ej out prisma parts(4) show ?thesis
    by (simp add: normalizeConfig_datamodel_Inr_iff)
qed

theorem resolution_idempotent_below_root_witness:
  "isAbsolute ''/proj''
   \<and> normalizeConfig_datamodel exampleEnv exampleLoader exampleConfig ''/proj''
         (Some ''/out/build'') = Inr exampleResolved
   \<and> underRoot ''/proj'' ''/proj/src/context.ts''
   \<and> underRoot ''/proj'' ''/proj/src/graphql/''
   \<and> underRoot ''/proj'' ''/proj/src/index.ts''
   \<and> underRoot ''/proj'' ''/proj/yoga/nexus.ts''
   \<and> underRoot ''/proj'' ''/proj/src/schema.graphql''
   \<and> in_resolversPath (rawOf ''/proj'' (in_prisma exampleConfig) exampleResolved)
        = Some ''/src/graphql/''
   \<and> normalizeConfig_datamodel exampleEnv exampleLoader
         (rawOf ''/proj'' (in_prisma exampleConfig) exampleResolved) ''/proj''
         (Some ''/out/build'') = Inr exampleResolved"
proof -
  have abs: "isAbsolute ''/proj''"
    by (simp add: isAbsolute_def sep_def)
  have under: "underRoot ''/proj'' ''/proj/src/context.ts''"
      "underRoot ''/proj'' ''/proj/src/graphql/''"
      "underRoot ''/proj'' ''/proj/src/index.ts''"
      "underRoot ''/proj'' ''/proj/yoga/nexus.ts''"
      "underRoot ''/proj'' ''/proj/src/schema.graphql''"
    by (simp_all add: underRoot_def sep_def)
  have raw: "in_resolversPath (rawOf ''/proj'' (in_prisma exampleConfig) exampleResolved)
        = Some ''/src/graphql/''"
    by (simp add: rawOf_def withoutRoot_def exampleResolved_def)
  have "normalizeConfig_datamodel exampleEnv exampleLoader
         (rawOf ''/proj'' (in_prisma exampleConfig) exampleResolved) ''/proj''
         (Some ''/out/build'') = Inr exampleResolved"
    using under
    by (intro resolution_idempotent_below_root [OF abs example_datamodel])
       (simp_all add: exampleResolved_def)
  with abs under raw example_datamodel show ?thesis by simp
qed

end
